theory Spec2Isabelle
  imports Complex_Main "HOL-Library.Sublist"
begin

section \<open>The client-side data cache (frontend/src/lib/cache/dataCache.ts)\<close>

text \<open>
  \<^verbatim>\<open>interface CacheEntry<T> { data: T; timestamp: number; expiresAt: number; }\<close>
  Times are the milliseconds of \<^verbatim>\<open>Date.now()\<close>, modelled as integers. The private map
  \<^verbatim>\<open>cache: Map<string, CacheEntry<any>>\<close> is a partial function from keys to entries;
  each method takes the map and returns the updated map. The clock reading of a call is an
  argument of the method, named \<open>now\<close>.
\<close>

record 'v CacheEntry =
  data :: 'v
  timestamp :: int
  expiresAt :: int

type_synonym 'v DataCache = "string \<rightharpoonup> 'v CacheEntry"

definition defaultTTL :: int where
  "defaultTTL = 5 * 60 * 1000"

text \<open>
  \<^verbatim>\<open>get<T>(key): T | null\<close>. The result \<open>None\<close> is JavaScript's \<^verbatim>\<open>null\<close>; an expired
  entry is deleted by the read.
\<close>

definition DataCache_get :: "string \<Rightarrow> int \<Rightarrow> 'v DataCache \<Rightarrow> 'v option \<times> 'v DataCache" where
  "DataCache_get key now cache =
     (case cache key of
        None \<Rightarrow> (None, cache)
      | Some entry \<Rightarrow>
          if now > expiresAt entry then (None, cache(key := None))
          else (Some (data entry), cache))"

text \<open>\<^verbatim>\<open>set<T>(key, data, ttl = this.defaultTTL)\<close>\<close>

definition DataCache_set :: "string \<Rightarrow> 'v \<Rightarrow> int \<Rightarrow> int \<Rightarrow> 'v DataCache \<Rightarrow> 'v DataCache" where
  "DataCache_set key d ttl now cache =
     cache(key \<mapsto> \<lparr>data = d, timestamp = now, expiresAt = now + ttl\<rparr>)"

definition DataCache_set_default :: "string \<Rightarrow> 'v \<Rightarrow> int \<Rightarrow> 'v DataCache \<Rightarrow> 'v DataCache" where
  "DataCache_set_default key d now cache = DataCache_set key d defaultTTL now cache"

definition DataCache_invalidate :: "string \<Rightarrow> 'v DataCache \<Rightarrow> 'v DataCache" where
  "DataCache_invalidate key cache = cache(key := None)"

text \<open>
  \<^verbatim>\<open>key.includes(pattern)\<close>: the pattern occurs in the key as a contiguous substring.
\<close>

fun str_includes :: "string \<Rightarrow> string \<Rightarrow> bool" where
  "str_includes [] pattern = (pattern = [])"
| "str_includes (c # cs) pattern = (prefix pattern (c # cs) \<or> str_includes cs pattern)"

text \<open>
  \<^verbatim>\<open>invalidatePattern(pattern)\<close> walks over the keys of the map and deletes each key that
  includes the pattern.
\<close>

definition DataCache_invalidatePattern :: "string \<Rightarrow> 'v DataCache \<Rightarrow> 'v DataCache" where
  "DataCache_invalidatePattern pattern cache =
     (\<lambda>key. if str_includes key pattern then None else cache key)"

definition DataCache_clear :: "'v DataCache \<Rightarrow> 'v DataCache" where
  "DataCache_clear cache = Map.empty"

definition DataCache_has :: "string \<Rightarrow> int \<Rightarrow> 'v DataCache \<Rightarrow> bool \<times> 'v DataCache" where
  "DataCache_has key now cache =
     (case DataCache_get key now cache of (r, cache') \<Rightarrow> (r \<noteq> None, cache'))"

text \<open>The cache keys \<^verbatim>\<open>CACHE_KEYS\<close>.\<close>

definition USER_PROFILE :: string where "USER_PROFILE = ''user:profile''"
definition USER_VIDEOS :: string where "USER_VIDEOS = ''user:videos''"
definition VIDEO_DETAILS :: "string \<Rightarrow> string" where "VIDEO_DETAILS videoId = ''video:'' @ videoId"
definition VIDEO_COMMENTS :: "string \<Rightarrow> string" where "VIDEO_COMMENTS videoId = ''comments:'' @ videoId"
definition ALL_COMMENTS :: string where "ALL_COMMENTS = ''comments:all''"

text \<open>
  The method calls that change the private map, as one step function; \<^verbatim>\<open>has\<close> is a
  \<^verbatim>\<open>get\<close> as far as the map goes. The map is private to the class, so its entries change
  through these calls only. The objects the entries hold are the callers' own: a change
  of such an object is a step of the program and not of the cache, and is found with the
  store of objects below.
\<close>

datatype 'v cache_op =
    OpGet string int
  | OpSet string 'v int int
  | OpInvalidate string
  | OpInvalidatePattern string
  | OpClear

fun cache_step :: "'v cache_op \<Rightarrow> 'v DataCache \<Rightarrow> 'v DataCache" where
  "cache_step (OpGet key now) cache = snd (DataCache_get key now cache)"
| "cache_step (OpSet key d ttl now) cache = DataCache_set key d ttl now cache"
| "cache_step (OpInvalidate key) cache = DataCache_invalidate key cache"
| "cache_step (OpInvalidatePattern pattern) cache = DataCache_invalidatePattern pattern cache"
| "cache_step OpClear cache = DataCache_clear cache"

text \<open>
  The three ways the claim about an entry's lifetime names for an entry to go away, read
  off an operation: \<open>evicts\<close> holds when the operation removes the entry stored under
  \<open>key\<close> (an expired read of that key, an invalidation that names or matches it, a
  clear), \<open>replaces\<close> gives the fresh entry a \<^verbatim>\<open>set\<close> on that key stores.
\<close>

fun evicts :: "'v cache_op \<Rightarrow> string \<Rightarrow> 'v CacheEntry \<Rightarrow> bool" where
  "evicts (OpGet k now) key entry = (k = key \<and> now > expiresAt entry)"
| "evicts (OpSet k d ttl now) key entry = False"
| "evicts (OpInvalidate k) key entry = (k = key)"
| "evicts (OpInvalidatePattern pattern) key entry = str_includes key pattern"
| "evicts OpClear key entry = True"

fun replaces :: "'v cache_op \<Rightarrow> string \<Rightarrow> 'v CacheEntry option" where
  "replaces (OpSet k d ttl now) key =
     (if k = key then Some \<lparr>data = d, timestamp = now, expiresAt = now + ttl\<rparr> else None)"
| "replaces _ key = None"

text \<open>
  \<^verbatim>\<open>invalidateVideosCache()\<close> of lib/api/videos.ts:
  \<^verbatim>\<open>dataCache.invalidate(CACHE_KEYS.USER_VIDEOS); dataCache.invalidatePattern('video:');
  dataCache.invalidatePattern('comments:');\<close>
\<close>

definition invalidateVideosCache :: "'v DataCache \<Rightarrow> 'v DataCache" where
  "invalidateVideosCache cache =
     DataCache_invalidatePattern ''comments:''
       (DataCache_invalidatePattern ''video:''
          (DataCache_invalidate USER_VIDEOS cache))"

text \<open>
  The keys that \<^verbatim>\<open>invalidateVideosCache\<close> is said to clear: the user-videos key, and every
  key that contains \<^verbatim>\<open>video:\<close> or \<^verbatim>\<open>comments:\<close>.
\<close>

definition videos_key :: "string \<Rightarrow> bool" where
  "videos_key key \<longleftrightarrow>
     key = USER_VIDEOS \<or> str_includes key ''video:'' \<or> str_includes key ''comments:''"

section \<open>Cached objects are shared (lib/api/videos.ts, the dashboard hook)\<close>

text \<open>
  \<^verbatim>\<open>set\<close> keeps the object it is given and \<^verbatim>\<open>get\<close> returns that same object: the cache
  holds references. Objects live in a store, from addresses to contents; a cache of
  references is a \<open>ref DataCache\<close>. \<open>next_ref\<close> is the next unused address.
\<close>

type_synonym ref = nat

record 'o Heap =
  contents :: "ref \<Rightarrow> 'o"
  next_ref :: ref

definition alloc :: "'o \<Rightarrow> 'o Heap \<Rightarrow> ref \<times> 'o Heap" where
  "alloc x heap =
     (next_ref heap,
      heap\<lparr>contents := (contents heap)(next_ref heap := x), next_ref := Suc (next_ref heap)\<rparr>)"

text \<open>An in-place change of the object at an address, as \<^verbatim>\<open>Array.prototype.sort\<close> makes one.\<close>

definition mutate :: "ref \<Rightarrow> ('o \<Rightarrow> 'o) \<Rightarrow> 'o Heap \<Rightarrow> 'o Heap" where
  "mutate r f heap = heap\<lparr>contents := (contents heap)(r := f (contents heap r))\<rparr>"

text \<open>
  What the program can do to a cached object and its entry: call a method of the cache,
  or change the object in place through a reference it holds.
\<close>

datatype 'o program_op = CacheOp "ref cache_op" | Mutate ref "'o \<Rightarrow> 'o"

fun program_step :: "'o program_op \<Rightarrow> ref DataCache \<times> 'o Heap \<Rightarrow> ref DataCache \<times> 'o Heap" where
  "program_step (CacheOp op) (cache, heap) = (cache_step op cache, heap)"
| "program_step (Mutate r f) (cache, heap) = (cache, mutate r f heap)"

text \<open>
  Of \<^verbatim>\<open>interface Video\<close> the dashboard reads the comment count and the creation time; the
  time is the number \<^verbatim>\<open>new Date(v.createdAt).getTime()\<close>. The fields \<^verbatim>\<open>id\<close> and
  \<^verbatim>\<open>createdAt\<close> are written \<open>video_id\<close> and \<open>video_createdAt\<close>.
\<close>

record Video =
  video_id :: string
  commentCount :: nat
  video_createdAt :: int

text \<open>
  \<^verbatim>\<open>getUserVideos(skipCache = false)\<close>. \<open>fetched\<close> is the outcome of
  \<^verbatim>\<open>apiFetch('/api/videos')\<close>: the thrown value, or the parsed array, which is a new
  object. The result is the returned array (its address) or the thrown value, and the
  cache and the store afterwards. An array is truthy, so \<^verbatim>\<open>if (cached)\<close> holds exactly
  when the read did not return \<^verbatim>\<open>null\<close>.
\<close>

definition getUserVideos ::
  "'e + Video list \<Rightarrow> int \<Rightarrow> int \<Rightarrow> bool \<Rightarrow> ref DataCache \<times> Video list Heap \<Rightarrow>
   ('e + ref) \<times> ref DataCache \<times> Video list Heap" where
  "getUserVideos fetched now_read now_write skipCache st =
     (let fetch = (\<lambda>(cache, heap).
            case fetched of
              Inl err \<Rightarrow> (Inl err, cache, heap)
            | Inr videos \<Rightarrow>
                (case alloc videos heap of
                   (r, heap') \<Rightarrow> (Inr r, DataCache_set_default USER_VIDEOS r now_write cache, heap')))
      in if \<not> skipCache then
           (case DataCache_get USER_VIDEOS now_read (fst st) of
              (Some cached, cache') \<Rightarrow> (Inr cached, cache', snd st)
            | (None, cache') \<Rightarrow> fetch (cache', snd st))
         else fetch st)"

text \<open>
  The comparator of the dashboard, \<^verbatim>\<open>(a, b) => time(b) - time(a)\<close>: newest first. The
  sort is stable.
\<close>

definition newest_first :: "Video list \<Rightarrow> Video list" where
  "newest_first videos = sort_key (\<lambda>v. - video_createdAt v) videos"

text \<open>
  The part of \<^verbatim>\<open>fetchDashboardData(forceRefresh)\<close> that deals with the videos:
  \<^verbatim>\<open>videos = await getUserVideos(forceRefresh)\<close>, then
  \<^verbatim>\<open>recentVideos = videos.sort(...).slice(0, 5)\<close>. \<^verbatim>\<open>sort\<close> sorts the array in place and
  \<^verbatim>\<open>slice\<close> copies. The result is \<^verbatim>\<open>recentVideos\<close>. The profile, fetched alongside,
  touches the key \<^verbatim>\<open>user:profile\<close> only and is left out.
\<close>

definition fetchDashboardData ::
  "'e + Video list \<Rightarrow> int \<Rightarrow> int \<Rightarrow> bool \<Rightarrow> ref DataCache \<times> Video list Heap \<Rightarrow>
   ('e + Video list) \<times> ref DataCache \<times> Video list Heap" where
  "fetchDashboardData fetched now_read now_write forceRefresh st =
     (case getUserVideos fetched now_read now_write forceRefresh st of
        (Inl err, st') \<Rightarrow> (Inl err, st')
      | (Inr videos, cache, heap) \<Rightarrow>
          (Inr (take 5 (newest_first (contents heap videos))),
           cache, mutate videos newest_first heap))"

text \<open>The program state after a sequence of such steps.\<close>

definition run_program ::
  "'o program_op list \<Rightarrow> ref DataCache \<times> 'o Heap \<Rightarrow> ref DataCache \<times> 'o Heap" where
  "run_program ops st = foldl (\<lambda>s op. program_step op s) st ops"

text \<open>
  A step touches the entry stored under \<open>key\<close> when it is a cache operation that evicts
  or replaces the entry, or an in-place change of the object the entry refers to.
\<close>

fun touches :: "'o program_op \<Rightarrow> string \<Rightarrow> ref CacheEntry \<Rightarrow> bool" where
  "touches (CacheOp c) key entry = (evicts c key entry \<or> replaces c key \<noteq> None)"
| "touches (Mutate r f) key entry = (r = data entry)"

section \<open>Cached queries (lib/api/comments.ts, lib/api/alerts.ts)\<close>

text \<open>
  \<^verbatim>\<open>interface AlertFilters { unreadOnly?: boolean; alertType?: string; severity?: string;
  limit?: number; }\<close> and \<^verbatim>\<open>interface CommentFilters { category?, sentiment?, minToxicity?,
  search?, sortBy?, order?, limit?, offset? }\<close>. An optional field is an \<open>option\<close>:
  \<open>None\<close> is \<^verbatim>\<open>undefined\<close>. The counts \<^verbatim>\<open>limit\<close> and \<^verbatim>\<open>offset\<close> are integers, the
  score \<^verbatim>\<open>minToxicity\<close> a rational.
\<close>

record AlertFilters =
  unreadOnly :: "bool option"
  alertType :: "string option"
  severity :: "string option"
  limit :: "int option"

record CommentFilters =
  category :: "string option"
  sentiment :: "string option"
  minToxicity :: "rat option"
  search :: "string option"
  sortBy :: "string option"
  order :: "string option"
  limit :: "int option"
  offset :: "int option"

text \<open>
  \<^verbatim>\<open>URLSearchParams\<close> is the list of appended name/value pairs; its \<^verbatim>\<open>toString()\<close> is the
  empty string exactly when the list is empty, which is all the code asks of it
  (\<^verbatim>\<open>!queryString\<close>). The values are kept as they were appended instead of being
  rendered and percent-encoded, and a request URL is its path together with these pairs.
\<close>

datatype param_value = StringValue string | NumberValue rat

type_synonym URLSearchParams = "(string \<times> param_value) list"

record ApiUrl =
  path :: string
  queryString :: URLSearchParams

text \<open>
  JavaScript truthiness of an optional field, as the guards \<^verbatim>\<open>if (filters?.category)\<close>,
  \<^verbatim>\<open>if (filters?.limit)\<close> and \<^verbatim>\<open>if (filters?.unreadOnly)\<close> test it: \<^verbatim>\<open>undefined\<close>, the
  empty string, \<^verbatim>\<open>0\<close> and \<^verbatim>\<open>false\<close> are falsy.
\<close>

definition truthy_string :: "string option \<Rightarrow> bool" where
  "truthy_string s = (case s of None \<Rightarrow> False | Some v \<Rightarrow> v \<noteq> [])"

definition truthy_number :: "int option \<Rightarrow> bool" where
  "truthy_number n = (case n of None \<Rightarrow> False | Some v \<Rightarrow> v \<noteq> 0)"

definition truthy_boolean :: "bool option \<Rightarrow> bool" where
  "truthy_boolean b = (case b of None \<Rightarrow> False | Some v \<Rightarrow> v)"

text \<open>\<^verbatim>\<open>if (filters?.f) params.append(name, filters.f)\<close> for a string field \<^verbatim>\<open>f\<close>.\<close>

definition append_string :: "string \<Rightarrow> string option \<Rightarrow> URLSearchParams \<Rightarrow> URLSearchParams" where
  "append_string name s params =
     (case s of
        Some v \<Rightarrow> if v \<noteq> [] then params @ [(name, StringValue v)] else params
      | None \<Rightarrow> params)"

text \<open>\<^verbatim>\<open>if (filters?.f) params.append(name, filters.f.toString())\<close> for a number field.\<close>

definition append_number :: "string \<Rightarrow> int option \<Rightarrow> URLSearchParams \<Rightarrow> URLSearchParams" where
  "append_number name n params =
     (case n of
        Some v \<Rightarrow> if v \<noteq> 0 then params @ [(name, NumberValue (of_int v))] else params
      | None \<Rightarrow> params)"

text \<open>
  \<^verbatim>\<open>if (filters?.minToxicity !== undefined) params.append('minToxicity', ...)\<close>: any
  defined value is appended, zero included.
\<close>

definition append_defined :: "string \<Rightarrow> rat option \<Rightarrow> URLSearchParams \<Rightarrow> URLSearchParams" where
  "append_defined name n params =
     (case n of Some v \<Rightarrow> params @ [(name, NumberValue v)] | None \<Rightarrow> params)"

text \<open>The query parameters \<^verbatim>\<open>getVideoComments\<close> builds, in the order of the source.\<close>

definition getVideoComments_params :: "CommentFilters option \<Rightarrow> URLSearchParams" where
  "getVideoComments_params filters =
     (case filters of
        None \<Rightarrow> []
      | Some f \<Rightarrow>
          (let p1 = append_string ''category'' (category f) [];
               p2 = append_string ''sentiment'' (sentiment f) p1;
               p3 = append_defined ''minToxicity'' (minToxicity f) p2;
               p4 = append_string ''search'' (search f) p3;
               p5 = append_string ''sortBy'' (sortBy f) p4;
               p6 = append_string ''order'' (order f) p5;
               p7 = append_number ''limit'' (CommentFilters.limit f) p6
           in append_number ''offset'' (offset f) p7))"

text \<open>
  \<^verbatim>\<open>getVideoComments(videoId, filters?, skipCache = false)\<close>. \<open>apiFetch\<close> is the network
  call: it maps the request URL to the thrown error or to the response. \<open>now_read\<close> and
  \<open>now_write\<close> are the clock readings of the cache read and of the cache write. The
  result is the returned (or thrown) value, the cache afterwards, and the list of
  requests sent to the network. A cached response is an object, so \<^verbatim>\<open>if (cached)\<close> holds
  exactly when the read did not return \<^verbatim>\<open>null\<close>.
\<close>

definition getVideoComments ::
  "(ApiUrl \<Rightarrow> 'e + 'r) \<Rightarrow> int \<Rightarrow> int \<Rightarrow> string \<Rightarrow> CommentFilters option \<Rightarrow> bool \<Rightarrow>
   'r DataCache \<Rightarrow> ('e + 'r) \<times> 'r DataCache \<times> ApiUrl list" where
  "getVideoComments apiFetch now_read now_write videoId filters skipCache cache =
     (let params = getVideoComments_params filters;
          url = \<lparr>path = ''/api/videos/'' @ videoId @ ''/comments'', queryString = params\<rparr>;
          cacheKey = VIDEO_COMMENTS videoId;
          fetch = (\<lambda>c. case apiFetch url of
                     Inl err \<Rightarrow> (Inl err, c, [url])
                   | Inr response \<Rightarrow>
                       (Inr response,
                        if params = [] then DataCache_set_default cacheKey response now_write c
                        else c,
                        [url]))
      in if \<not> skipCache \<and> params = [] then
           (case DataCache_get cacheKey now_read cache of
              (Some cached, c) \<Rightarrow> (Inr cached, c, [])
            | (None, c) \<Rightarrow> fetch c)
         else fetch cache)"

text \<open>The query parameters \<^verbatim>\<open>getAlerts\<close> builds.\<close>

definition getAlerts_params :: "AlertFilters option \<Rightarrow> URLSearchParams" where
  "getAlerts_params filters =
     (case filters of
        None \<Rightarrow> []
      | Some f \<Rightarrow>
          (let p1 = (if truthy_boolean (unreadOnly f) then [(''unread_only'', StringValue ''true'')]
                     else []);
               p2 = append_string ''alert_type'' (alertType f) p1;
               p3 = append_string ''severity'' (severity f) p2
           in append_number ''limit'' (AlertFilters.limit f) p3))"

text \<open>
  \<^verbatim>\<open>getAlerts(filters?, skipCache = false)\<close>: as above, under the key \<^verbatim>\<open>alerts:all\<close> and
  with a time to live of two minutes.
\<close>

definition getAlerts ::
  "(ApiUrl \<Rightarrow> 'e + 'r) \<Rightarrow> int \<Rightarrow> int \<Rightarrow> AlertFilters option \<Rightarrow> bool \<Rightarrow>
   'r DataCache \<Rightarrow> ('e + 'r) \<times> 'r DataCache \<times> ApiUrl list" where
  "getAlerts apiFetch now_read now_write filters skipCache cache =
     (let params = getAlerts_params filters;
          url = \<lparr>path = ''/api/alerts'', queryString = params\<rparr>;
          cacheKey = ''alerts:all'';
          fetch = (\<lambda>c. case apiFetch url of
                     Inl err \<Rightarrow> (Inl err, c, [url])
                   | Inr response \<Rightarrow>
                       (Inr response,
                        if params = [] then
                          DataCache_set cacheKey response (2 * 60 * 1000) now_write c
                        else c,
                        [url]))
      in if \<not> skipCache \<and> params = [] then
           (case DataCache_get cacheKey now_read cache of
              (Some cached, c) \<Rightarrow> (Inr cached, c, [])
            | (None, c) \<Rightarrow> fetch c)
         else fetch cache)"

text \<open>
  A query carries a filter parameter, in the sense the code acts on, when some field of
  the filters passes its guard: a non-empty string, a non-zero count, \<^verbatim>\<open>unreadOnly\<close> true,
  or any defined \<^verbatim>\<open>minToxicity\<close>.
\<close>

definition comment_filter_set :: "CommentFilters option \<Rightarrow> bool" where
  "comment_filter_set filters =
     (case filters of
        None \<Rightarrow> False
      | Some f \<Rightarrow>
          truthy_string (category f) \<or> truthy_string (sentiment f) \<or> minToxicity f \<noteq> None
          \<or> truthy_string (search f) \<or> truthy_string (sortBy f) \<or> truthy_string (order f)
          \<or> truthy_number (CommentFilters.limit f) \<or> truthy_number (offset f))"

definition alert_filter_set :: "AlertFilters option \<Rightarrow> bool" where
  "alert_filter_set filters =
     (case filters of
        None \<Rightarrow> False
      | Some f \<Rightarrow>
          truthy_boolean (unreadOnly f) \<or> truthy_string (alertType f)
          \<or> truthy_string (severity f) \<or> truthy_number (AlertFilters.limit f))"

text \<open>
  The request URL of each query, and the cache as the read at the head of a query leaves
  it: untouched when \<^verbatim>\<open>skipCache\<close> is set, otherwise after the \<^verbatim>\<open>get\<close>, which drops an
  expired entry.
\<close>

definition comments_url :: "string \<Rightarrow> CommentFilters option \<Rightarrow> ApiUrl" where
  "comments_url videoId filters =
     \<lparr>path = ''/api/videos/'' @ videoId @ ''/comments'',
      queryString = getVideoComments_params filters\<rparr>"

definition alerts_url :: "AlertFilters option \<Rightarrow> ApiUrl" where
  "alerts_url filters = \<lparr>path = ''/api/alerts'', queryString = getAlerts_params filters\<rparr>"

definition after_read :: "bool \<Rightarrow> string \<Rightarrow> int \<Rightarrow> 'v DataCache \<Rightarrow> 'v DataCache" where
  "after_read skipCache key now cache =
     (if skipCache then cache else snd (DataCache_get key now cache))"

section \<open>The API client (frontend/src/lib/api/client.ts)\<close>

text \<open>
  JSON values, as \<^verbatim>\<open>response.json()\<close> produces them. An object is its list of members in
  document order; a repeated name keeps its last value, as \<^verbatim>\<open>JSON.parse\<close> does.
\<close>

datatype json =
    JNull
  | JBool bool
  | JNumber rat
  | JString string
  | JArray "json list"
  | JObject "(string \<times> json) list"

text \<open>
  The message of \<^verbatim>\<open>new Error(x)\<close> is \<^verbatim>\<open>String(x)\<close>: the string itself when \<^verbatim>\<open>x\<close> is a
  string; for any other value the coercion is kept symbolic as \<open>ToString x\<close>.
\<close>

datatype message = Text string | ToString json

definition message_of :: "json \<Rightarrow> message" where
  "message_of x = (case x of JString s \<Rightarrow> Text s | _ \<Rightarrow> ToString x)"

text \<open>
  What a call can throw: an \<^verbatim>\<open>Error\<close> made by the client, the \<^verbatim>\<open>TypeError\<close> of reading a
  property of \<^verbatim>\<open>null\<close>, or the rejection of a collaborator's promise (\<^verbatim>\<open>getIdToken\<close>,
  \<^verbatim>\<open>fetch\<close>, \<^verbatim>\<open>response.json()\<close>), named by the collaborator.
\<close>

datatype thrown = Error message | TypeError | Rejected string

text \<open>
  \<^verbatim>\<open>let tokenCache: { token: string; expiresAt: number } | null\<close>. The field
  \<^verbatim>\<open>expiresAt\<close> is written \<open>token_expiresAt\<close>, the cache entries having a field of that
  name already.
\<close>

record TokenCache =
  token :: string
  token_expiresAt :: int

record Headers =
  Authorization :: string
  Content_Type :: string

text \<open>
  \<^verbatim>\<open>getAuthHeaders()\<close>. \<open>currentUser\<close> is \<^verbatim>\<open>auth.currentUser\<close>: \<open>None\<close> when nobody is
  signed in, otherwise the outcome of the user's \<^verbatim>\<open>getIdToken(false)\<close>, a token or a
  rejection. The result is the headers or the thrown value, with the token cache
  afterwards.
\<close>

definition getAuthHeaders ::
  "(thrown + string) option \<Rightarrow> int \<Rightarrow> TokenCache option \<Rightarrow> (thrown + Headers) \<times> TokenCache option" where
  "getAuthHeaders currentUser now tokenCache =
     (case currentUser of
        None \<Rightarrow> (Inl (Error (Text ''User not authenticated'')), tokenCache)
      | Some getIdToken \<Rightarrow>
          (let fresh =
                 (case getIdToken of
                    Inl rejection \<Rightarrow> (Inl rejection, tokenCache)
                  | Inr t \<Rightarrow>
                      (Inr \<lparr>Authorization = ''Bearer '' @ t,
                             Content_Type = ''application/json''\<rparr>,
                       Some \<lparr>token = t, token_expiresAt = now + 55 * 60 * 1000\<rparr>))
           in case tokenCache of
                None \<Rightarrow> fresh
              | Some tc \<Rightarrow>
                  if token_expiresAt tc > now then
                    (Inr \<lparr>Authorization = ''Bearer '' @ token tc,
                           Content_Type = ''application/json''\<rparr>, tokenCache)
                  else fresh))"

text \<open>\<^verbatim>\<open>clearTokenCache()\<close>\<close>

definition clearTokenCache :: "TokenCache option \<Rightarrow> TokenCache option" where
  "clearTokenCache tokenCache = None"

text \<open>
  An HTTP response: its status and its body, \<open>None\<close> when the body does not parse as JSON
  (then \<^verbatim>\<open>response.json()\<close> rejects). \<^verbatim>\<open>response.ok\<close> is the Fetch API's: the status is
  in the range 200 to 299.
\<close>

record Response =
  status :: nat
  body :: "json option"

definition ok :: "Response \<Rightarrow> bool" where
  "ok response \<longleftrightarrow> 200 \<le> status response \<and> status response \<le> 299"

text \<open>The arguments handed to \<^verbatim>\<open>fetch\<close>: the URL, the headers, and the caller's options.\<close>

record 'o FetchArgs =
  url :: string
  headers :: Headers
  options :: 'o

text \<open>Decimal digits of a number, for the template string \<^verbatim>\<open>`HTTP ${response.status}`\<close>.\<close>

fun string_of_nat :: "nat \<Rightarrow> string" where
  "string_of_nat n =
     (if n < 10 then [''0123456789'' ! n]
      else string_of_nat (n div 10) @ [''0123456789'' ! (n mod 10)])"

declare string_of_nat.simps [simp del]

text \<open>JavaScript truthiness of a JSON value, as \<^verbatim>\<open>||\<close> tests it.\<close>

definition truthy :: "json \<Rightarrow> bool" where
  "truthy x =
     (case x of
        JNull \<Rightarrow> False
      | JBool b \<Rightarrow> b
      | JNumber n \<Rightarrow> n \<noteq> 0
      | JString s \<Rightarrow> s \<noteq> []
      | JArray xs \<Rightarrow> True
      | JObject members \<Rightarrow> True)"

text \<open>
  \<^verbatim>\<open>error.detail\<close> for a parsed body: \<^verbatim>\<open>undefined\<close> (\<open>Inr None\<close>) when the value is not
  an object or has no such member, and a \<^verbatim>\<open>TypeError\<close> when the value is \<^verbatim>\<open>null\<close>.
\<close>

definition detail :: "json \<Rightarrow> thrown + json option" where
  "detail error =
     (case error of
        JNull \<Rightarrow> Inl TypeError
      | JObject members \<Rightarrow> Inr (map_of (rev members) ''detail'')
      | _ \<Rightarrow> Inr None)"

text \<open>
  The non-ok branch after the 401 test:
  \<^verbatim>\<open>const error = await response.json().catch(() => ({ detail: 'An error occurred' }));
  throw new Error(error.detail || `HTTP ${response.status}`);\<close>
\<close>

definition error_of_response :: "Response \<Rightarrow> thrown" where
  "error_of_response response =
     (let error = (case body response of
                     None \<Rightarrow> JObject [(''detail'', JString ''An error occurred'')]
                   | Some parsed \<Rightarrow> parsed);
          http = Error (Text (''HTTP '' @ string_of_nat (status response)))
      in case detail error of
           Inl type_error \<Rightarrow> type_error
         | Inr None \<Rightarrow> http
         | Inr (Some d) \<Rightarrow> if truthy d then Error (message_of d) else http)"

text \<open>
  \<^verbatim>\<open>apiFetch<T>(endpoint, options = {})\<close>. \<open>API_URL\<close> is the configured base URL, \<open>fetch\<close>
  the network: it gives the response or the rejection for a request. The result is the
  parsed body or the thrown value, with the token cache afterwards.
\<close>

definition apiFetch ::
  "string \<Rightarrow> (thrown + string) option \<Rightarrow> int \<Rightarrow> ('o FetchArgs \<Rightarrow> thrown + Response) \<Rightarrow>
   string \<Rightarrow> 'o \<Rightarrow> TokenCache option \<Rightarrow> (thrown + json) \<times> TokenCache option" where
  "apiFetch API_URL currentUser now fetch endpoint opts tokenCache =
     (case getAuthHeaders currentUser now tokenCache of
        (Inl err, tc) \<Rightarrow> (Inl err, tc)
      | (Inr hdrs, tc) \<Rightarrow>
          (case fetch \<lparr>url = API_URL @ endpoint, headers = hdrs, options = opts\<rparr> of
             Inl rejection \<Rightarrow> (Inl rejection, tc)
           | Inr response \<Rightarrow>
               if \<not> ok response then
                 (Inl (error_of_response response),
                  if status response = 401 then clearTokenCache tc else tc)
               else
                 (case body response of
                    None \<Rightarrow> (Inl (Rejected ''response.json()''), tc)
                  | Some parsed \<Rightarrow> (Inr parsed, tc))))"

section \<open>The rate limiter (middleware/rate_limiter.py, as listed in the rate-limiting notes)\<close>

text \<open>
  The Python being modelled:
  \<^verbatim>\<open>
  def get_user_identifier(request: Request) -> str:
      if hasattr(request.state, 'user') and request.state.user:
          user_id = request.state.user.get('userId')
          if user_id:
              return f"user:{user_id}"
      return f"ip:{get_remote_address(request)}"
  \<close>
  \<^verbatim>\<open>request.state\<close> may have no attribute \<^verbatim>\<open>user\<close>, or hold \<^verbatim>\<open>None\<close>, or hold the dict the
  authentication layer attached. The values of that dict are strings or \<^verbatim>\<open>None\<close>.
  \<^verbatim>\<open>get_remote_address\<close> is the rate-limiting library's; its result for the request is
  the field \<open>remote_address\<close>.
\<close>

datatype py_value = PyNone | PyStr string

datatype state_user = NoAttribute | IsNone | Dict "(string \<times> py_value) list"

record Request =
  state_user :: state_user
  remote_address :: string

text \<open>Python truthiness: \<^verbatim>\<open>None\<close>, the empty string and the empty dict are falsy.\<close>

definition py_truthy :: "py_value \<Rightarrow> bool" where
  "py_truthy v = (case v of PyNone \<Rightarrow> False | PyStr s \<Rightarrow> s \<noteq> [])"

text \<open>\<^verbatim>\<open>dict.get(key)\<close>: the value, or \<^verbatim>\<open>None\<close> when the key is missing.\<close>

definition dict_get :: "(string \<times> py_value) list \<Rightarrow> string \<Rightarrow> py_value" where
  "dict_get d key = (case map_of d key of None \<Rightarrow> PyNone | Some v \<Rightarrow> v)"

text \<open>\<^verbatim>\<open>f"{v}"\<close> for a string value.\<close>

definition py_str :: "py_value \<Rightarrow> string" where
  "py_str v = (case v of PyNone \<Rightarrow> ''None'' | PyStr s \<Rightarrow> s)"

definition get_user_identifier :: "Request \<Rightarrow> string" where
  "get_user_identifier request =
     (case state_user request of
        Dict user \<Rightarrow>
          if user \<noteq> [] then
            (let user_id = dict_get user ''userId''
             in if py_truthy user_id then ''user:'' @ py_str user_id
                else ''ip:'' @ remote_address request)
          else ''ip:'' @ remote_address request
      | _ \<Rightarrow> ''ip:'' @ remote_address request)"

text \<open>
  \<^verbatim>\<open>
  limiter = Limiter(
      key_func=get_user_identifier,
      default_limits=["100/minute"],
      storage_uri="memory://",
      strategy="fixed-window",
      headers_enabled=True
  )
  \<close>
\<close>

record Limiter =
  key_func :: "Request \<Rightarrow> string"
  default_limits :: "string list"
  storage_uri :: string
  strategy :: string
  headers_enabled :: bool

definition limiter :: Limiter where
  "limiter =
     \<lparr>key_func = get_user_identifier,
      default_limits = [''100/minute''],
      storage_uri = ''memory://'',
      strategy = ''fixed-window'',
      headers_enabled = True\<rparr>"

text \<open>
  The identity the claim speaks of: the \<^verbatim>\<open>userId\<close> of the user attached to the request,
  when a user is attached and carries a non-empty \<^verbatim>\<open>userId\<close>.
\<close>

definition attached_userId :: "Request \<Rightarrow> string option" where
  "attached_userId request =
     (case state_user request of
        Dict user \<Rightarrow>
          (case map_of user ''userId'' of
             Some (PyStr uid) \<Rightarrow> if uid \<noteq> [] then Some uid else None
           | _ \<Rightarrow> None)
      | _ \<Rightarrow> None)"

section \<open>Plans and the submission flow (pages/onboarding/ChoosePlan.tsx, pages/dashboard/AddVideo.tsx)\<close>

text \<open>
  \<^verbatim>\<open>type PlanType = 'free' | 'starter' | 'pro' | 'business'\<close> and the table \<^verbatim>\<open>plans\<close>. The
  field \<^verbatim>\<open>id\<close> is written \<open>plan_id\<close>; the optional fields are options.
\<close>

datatype PlanType = free | starter | pro | business

record Plan =
  plan_id :: PlanType
  name :: string
  price :: nat
  period :: string
  popular :: "bool option"
  features :: "string list"
  videosPerMonth :: nat
  aiQuestionsPerMonth :: nat
  extraFeatures :: "string list option"



text \<open>
  The state of the Add Video page (\<^verbatim>\<open>useState\<close> cells), and what a run of a handler
  leaves behind: the state, the toasts shown in order, and the route navigated to, if any.
\<close>

record AddVideoState =
  videoUrl :: string
  isValidating :: bool
  isAnalyzing :: bool
  urlError :: string

datatype toast = ToastSuccess string | ToastError string

record AddVideoOutcome =
  state :: AddVideoState
  toasts :: "toast list"
  navigated :: "string option"

text \<open>
  Of the responses of \<^verbatim>\<open>validateVideoUrl\<close> and \<^verbatim>\<open>analyzeVideo\<close> the handler reads the
  title and the job id only.
\<close>

record VideoMetadata =
  title :: string

record AnalyzeResponse =
  jobId :: string

text \<open>\<^verbatim>\<open>!videoUrl.trim()\<close>: the string is empty once its white space is trimmed.\<close>

definition is_space :: "char \<Rightarrow> bool" where
  "is_space c \<longleftrightarrow> c \<in> set [CHR '' '', CHR 0x09, CHR 0x0A, CHR 0x0B, CHR 0x0C, CHR 0x0D]"

definition blank :: "string \<Rightarrow> bool" where
  "blank s = list_all is_space s"

text \<open>
  \<^verbatim>\<open>validateYouTubeUrl(url)\<close>: the result, and the error text it sets, if any. The three
  regular expressions are not expanded: \<open>patterns\<close> says whether one of them matches.
\<close>

definition validateYouTubeUrl :: "(string \<Rightarrow> bool) \<Rightarrow> string \<Rightarrow> bool \<times> string option" where
  "validateYouTubeUrl patterns u =
     (if str_includes u ''list='' \<or> str_includes u ''/playlist'' then
        (False, Some ''Playlist URLs are not supported. Please use a single video URL.'')
      else if str_includes u ''/channel/'' \<or> str_includes u ''/c/'' \<or> str_includes u ''/@'' then
        (False, Some ''Channel URLs are not supported. Please use a video URL.'')
      else if \<not> patterns u then (False, Some ''Please enter a valid YouTube video URL'')
      else (True, None))"

definition plan_limit_toast :: string where
  "plan_limit_toast =
     ''You'' @ [CHR 0x27] @ ''ve reached your plan limit. Please upgrade to analyze more videos.''"

text \<open>
  The \<^verbatim>\<open>catch\<close> block of \<^verbatim>\<open>handleAnalyze\<close>, on the message of the error caught: the error
  text it sets and the toast it shows, if any.
\<close>

definition on_analysis_error :: "string \<Rightarrow> string \<times> toast list" where
  "on_analysis_error msg =
     (if str_includes msg ''403'' \<or> str_includes msg ''limit'' then
        (''Plan limit reached. Upgrade to continue.'', [ToastError plan_limit_toast])
      else if str_includes msg ''404'' \<or> str_includes msg ''not found'' then
        (''Video not found or comments are disabled'', [])
      else if str_includes msg ''Invalid'' then (msg, [])
      else (''Something went wrong. Please try again.'',
            [ToastError ''Failed to analyze video. Please try again.'']))"

text \<open>
  \<^verbatim>\<open>handleAnalyze()\<close>. \<open>validateVideoUrl\<close> and \<open>analyzeVideo\<close> are the two API calls: each
  gives its response, or the message of the error it rejects with.
\<close>

definition handleAnalyze ::
  "(string \<Rightarrow> bool) \<Rightarrow> (string \<Rightarrow> string + VideoMetadata) \<Rightarrow>
   (string \<Rightarrow> string + AnalyzeResponse) \<Rightarrow> AddVideoState \<Rightarrow> AddVideoOutcome" where
  "handleAnalyze patterns validateVideoUrl analyzeVideo st =
     (let st0 = st\<lparr>urlError := []\<rparr>
      in if blank (videoUrl st0) then
           \<lparr>state = st0\<lparr>urlError := ''Please enter a YouTube video URL''\<rparr>,
            toasts = [], navigated = None\<rparr>
         else
           (case validateYouTubeUrl patterns (videoUrl st0) of
              (False, err) \<Rightarrow>
                \<lparr>state = (case err of None \<Rightarrow> st0 | Some e \<Rightarrow> st0\<lparr>urlError := e\<rparr>),
                 toasts = [], navigated = None\<rparr>
            | (True, err) \<Rightarrow>
                (case validateVideoUrl (videoUrl st0) of
                   Inl msg \<Rightarrow>
                     \<lparr>state = st0\<lparr>urlError := fst (on_analysis_error msg),
                                  isValidating := False, isAnalyzing := False\<rparr>,
                      toasts = snd (on_analysis_error msg), navigated = None\<rparr>
                 | Inr videoData \<Rightarrow>
                     (case analyzeVideo (videoUrl st0) of
                        Inl msg \<Rightarrow>
                          \<lparr>state = st0\<lparr>urlError := fst (on_analysis_error msg),
                                       isValidating := False, isAnalyzing := False\<rparr>,
                           toasts = ToastSuccess (''Video found: '' @ title videoData)
                                    # snd (on_analysis_error msg),
                           navigated = None\<rparr>
                      | Inr response \<Rightarrow>
                          \<lparr>state = st0\<lparr>isValidating := False, isAnalyzing := True\<rparr>,
                           toasts = [ToastSuccess (''Video found: '' @ title videoData),
                                     ToastSuccess ''Analysis started!''],
                           navigated = Some (''/analyzing?jobId='' @ jobId response)\<rparr>))))"

section \<open>Job status and the progress page (lib/api/videos.ts, the Analyzing page)\<close>

text \<open>
  \<^verbatim>\<open>interface JobStatus { jobId; videoId; status: 'queued' | 'processing' | 'completed' |
  'failed'; progress; totalComments; processedComments; error?; createdAt; updatedAt }\<close>.
  The status union is a datatype. Field names that other records of this development
  already use carry the prefix \<open>job_\<close>.
\<close>

datatype JobStatus_status = queued | processing | completed | failed

record JobStatus =
  job_jobId :: string
  job_videoId :: string
  job_status :: JobStatus_status
  progress :: int
  totalComments :: nat
  processedComments :: nat
  job_error :: "string option"
  createdAt :: string
  updatedAt :: string



text \<open>
  \<^verbatim>\<open>interface Step { id: number; label: string; status: 'pending' | 'inProgress' |
  'completed'; progress?: string }\<close> and the six steps the page starts with.
\<close>

datatype Step_status = pending | inProgress | step_completed

record Step =
  step_id :: nat
  label :: string
  step_status :: Step_status
  step_progress :: "string option"

definition initial_steps :: "Step list" where
  "initial_steps =
     [\<lparr>step_id = 1, label = ''Connected to YouTube'', step_status = pending, step_progress = None\<rparr>,
      \<lparr>step_id = 2, label = ''Fetched video metadata'', step_status = pending, step_progress = None\<rparr>,
      \<lparr>step_id = 3, label = ''Downloading comments'', step_status = pending, step_progress = None\<rparr>,
      \<lparr>step_id = 4, label = ''AI analyzing sentiment'', step_status = pending, step_progress = None\<rparr>,
      \<lparr>step_id = 5, label = ''Categorizing comments'', step_status = pending, step_progress = None\<rparr>,
      \<lparr>step_id = 6, label = ''Extracting questions'', step_status = pending, step_progress = None\<rparr>]"

text \<open>
  \<^verbatim>\<open>newSteps[i].status = s\<close> and \<^verbatim>\<open>newSteps[i].progress = p\<close>. The array always holds the
  six step objects, so the index is in range wherever the page calls these.
\<close>

definition set_status :: "nat \<Rightarrow> Step_status \<Rightarrow> Step list \<Rightarrow> Step list" where
  "set_status i s steps = steps[i := (steps ! i)\<lparr>step_status := s\<rparr>]"

definition set_progress :: "nat \<Rightarrow> string \<Rightarrow> Step list \<Rightarrow> Step list" where
  "set_progress i p steps = steps[i := (steps ! i)\<lparr>step_progress := Some p\<rparr>]"

definition on_condition :: "bool \<Rightarrow> ('a \<Rightarrow> 'a) \<Rightarrow> 'a \<Rightarrow> 'a" where
  "on_condition c f x = (if c then f x else x)"

text \<open>
  \<^verbatim>\<open>updateSteps(progress, processed, total)\<close>: the \<^verbatim>\<open>if\<close> statements of the source, applied
  in their order to the step objects.
\<close>

definition updateSteps :: "int \<Rightarrow> nat \<Rightarrow> nat \<Rightarrow> Step list \<Rightarrow> Step list" where
  "updateSteps p processed totalCount steps =
     (let s1 = on_condition (p \<ge> 5) (set_status 0 step_completed) steps;
          s2 = on_condition (p \<ge> 10) (set_status 1 step_completed) s1;
          s3 = on_condition (p \<ge> 15 \<and> p < 70)
                 (\<lambda>s. on_condition (processed > 0 \<and> totalCount > 0)
                         (set_progress 2 (string_of_nat processed @ ''/'' @ string_of_nat totalCount))
                         (set_status 2 inProgress s)) s2;
          s4 = on_condition (p \<ge> 70)
                 (\<lambda>s. set_progress 2 (string_of_nat totalCount @ ''/'' @ string_of_nat totalCount)
                         (set_status 2 step_completed s)) s3;
          s5 = on_condition (p \<ge> 75 \<and> p < 85) (set_status 3 inProgress) s4;
          s6 = on_condition (p \<ge> 85) (set_status 3 step_completed) s5;
          s7 = on_condition (p \<ge> 85 \<and> p < 95) (set_status 4 inProgress) s6;
          s8 = on_condition (p \<ge> 95) (set_status 4 step_completed) s7;
          s9 = on_condition (p \<ge> 95 \<and> p < 100) (set_status 5 inProgress) s8
      in on_condition (p \<ge> 100) (set_status 5 step_completed) s9)"

text \<open>
  The state of the page: the \<^verbatim>\<open>useState\<close> cells, whether the polling interval is still
  set, the error toasts shown, and the route a timer has been set to navigate to.
\<close>

record AnalyzingPage =
  page_progress :: int
  page_status :: JobStatus_status
  page_steps :: "Step list"
  page_videoId :: "string option"
  polling :: bool
  page_toasts :: "toast list"
  redirect :: "string option"


text \<open>
  One run of \<^verbatim>\<open>pollStatus\<close>, on what \<^verbatim>\<open>getJobStatus(jobId)\<close> gave: the job status, or the
  message of the error it rejected with. A job status whose \<^verbatim>\<open>videoId\<close> is the empty
  string is falsy in the test of the redirect.
\<close>

definition pollStatus :: "string + JobStatus \<Rightarrow> AnalyzingPage \<Rightarrow> AnalyzingPage" where
  "pollStatus polled page =
     (case polled of
        Inr jobStatus \<Rightarrow>
          (let page1 = page\<lparr>page_progress := progress jobStatus,
                             page_status := job_status jobStatus,
                             page_videoId := Some (job_videoId jobStatus),
                             page_steps := updateSteps (progress jobStatus)
                                             (processedComments jobStatus)
                                             (totalComments jobStatus) (page_steps page)\<rparr>;
               page2 = (if job_status jobStatus = completed then
                          page1\<lparr>polling := False,
                                 page_toasts := page_toasts page1 @ [ToastSuccess ''Analysis complete!''],
                                 redirect := Some (if job_videoId jobStatus \<noteq> []
                                                   then ''/dashboard/videos/'' @ job_videoId jobStatus
                                                   else ''/dashboard/videos'')\<rparr>
                        else page1)
           in if job_status jobStatus = failed then
                page2\<lparr>polling := False,
                       page_toasts := page_toasts page2
                         @ [ToastError (case job_error jobStatus of
                                          None \<Rightarrow> ''Analysis failed''
                                        | Some e \<Rightarrow> if e \<noteq> [] then e else ''Analysis failed'')],
                       redirect := Some ''/dashboard/videos/add''\<rparr>
              else page2)
      | Inl msg \<Rightarrow>
          if str_includes msg ''404'' \<or> str_includes msg ''not found'' then page
          else page\<lparr>polling := False,
                    page_toasts := page_toasts page @ [ToastError ''Failed to get analysis status'']\<rparr>)"


section \<open>The sync orchestrator\<close>

text \<open>
  Modelled from the spec: the job states of the Sync Orchestrator (section 4.1). The
  backend that runs sync jobs is not among the source files; only the \<^verbatim>\<open>JobStatus\<close>
  record it serves and the page that polls it are.
\<close>

datatype SyncState = Queued | Fetching | Analyzing | Finalizing | Completed | Failed


text \<open>
  Modelled from the spec: the SyncJob entity (section 3), without its identifiers and
  time stamps, which no transition reads.
\<close>

record SyncJob =
  sync_state :: SyncState
  progressPercent :: nat
  commentsTotal :: nat
  commentsProcessed :: nat
  errorDetail :: "string option"

text \<open>
  Modelled from the spec: a job is created at submission, in state Queued. The spec
  gives the range of \<^verbatim>\<open>progressPercent\<close> (0 to 100) and not its first value; the build
  instructions of the backend create the job with progress 0, which is taken here.
  \<open>n\<close> is the comment count the video's metadata reports.
\<close>

definition submit :: "nat \<Rightarrow> SyncJob" where
  "submit n =
     \<lparr>sync_state = Queued, progressPercent = 0, commentsTotal = n, commentsProcessed = 0,
      errorDetail = None\<rparr>"

text \<open>
  Modelled from the spec: while fetching, \<^verbatim>\<open>progressPercent\<close> advances proportionally
  to \<^verbatim>\<open>commentsProcessed/commentsTotal\<close> within the range 10 to 70. The quotient is cut
  off at 1, and a video with no comments stays at 10.
\<close>

definition fetch_progress :: "nat \<Rightarrow> nat \<Rightarrow> nat" where
  "fetch_progress processed n =
     (if n = 0 then 10 else 10 + (60 * min processed n) div n)"

text \<open>
  Modelled from the spec: what happens to a job. The worker picks it up; a page of
  \<open>k\<close> comments has been fetched and upserted; the fetch cursor reports no more pages;
  all fetched comments have an analysis; statistics, alerts and the answer cache are
  done; an unrecoverable error with its user-safe message. Section 4.1 lists no
  transition from Fetching to Finalizing, so the short cut of section 4.2, taken when a
  fetch finds no new comments, is the two transitions through Analyzing with nothing to
  analyze: \<open>NoMorePages\<close> followed at once by \<open>AllAnalyzed\<close>.
\<close>

datatype event =
    Pickup
  | PageFetched nat
  | NoMorePages
  | AllAnalyzed
  | Finalized
  | Unrecoverable string

text \<open>
  Modelled from the spec: the transitions of section 4.1. An event that does not apply
  in the job's state leaves the job as it is; in particular a job that is Completed or
  Failed is immutable. A failure keeps the progress reached and sets \<^verbatim>\<open>errorDetail\<close>.
\<close>

fun orchestrate :: "event \<Rightarrow> SyncJob \<Rightarrow> SyncJob" where
  "orchestrate Pickup job =
     (if sync_state job = Queued
      then job\<lparr>sync_state := Fetching, progressPercent := 10\<rparr> else job)"
| "orchestrate (PageFetched k) job =
     (if sync_state job = Fetching
      then job\<lparr>commentsProcessed := commentsProcessed job + k,
                progressPercent := fetch_progress (commentsProcessed job + k) (commentsTotal job)\<rparr>
      else job)"
| "orchestrate NoMorePages job =
     (if sync_state job = Fetching
      then job\<lparr>sync_state := Analyzing, progressPercent := 70\<rparr> else job)"
| "orchestrate AllAnalyzed job =
     (if sync_state job = Analyzing
      then job\<lparr>sync_state := Finalizing, progressPercent := 95\<rparr> else job)"
| "orchestrate Finalized job =
     (if sync_state job = Finalizing
      then job\<lparr>sync_state := Completed, progressPercent := 100\<rparr> else job)"
| "orchestrate (Unrecoverable msg) job =
     (if sync_state job = Completed \<or> sync_state job = Failed then job
      else job\<lparr>sync_state := Failed, errorDetail := Some msg\<rparr>)"

text \<open>The job after a sequence of events, from its creation onward.\<close>

definition run :: "event list \<Rightarrow> SyncJob \<Rightarrow> SyncJob" where
  "run events job = foldl (\<lambda>j e. orchestrate e j) job events"



text \<open>
  Modelled from the spec: the status \<^verbatim>\<open>getJobStatus\<close> reports for a job state. The
  \<^verbatim>\<open>JobStatus\<close> record has one status for work in flight, \<^verbatim>\<open>processing\<close>. The build
  instructions of the backend (\<^verbatim>\<open>instructions-lently.md\<close>, \<^verbatim>\<open>process_sync_job\<close>) create
  the job with status \<^verbatim>\<open>queued\<close>, set \<^verbatim>\<open>processing\<close> on pickup, keep it through fetching,
  analysis and statistics, and set \<^verbatim>\<open>completed\<close> at the end or \<^verbatim>\<open>failed\<close> on an error.
\<close>

fun status_of :: "SyncState \<Rightarrow> JobStatus_status" where
  "status_of Queued = queued"
| "status_of Fetching = processing"
| "status_of Analyzing = processing"
| "status_of Finalizing = processing"
| "status_of Completed = completed"
| "status_of Failed = failed"


text \<open>
  Modelled from the spec: what holds of a job in each state, as the transitions leave
  it.
\<close>

definition job_inv :: "SyncJob \<Rightarrow> bool" where
  "job_inv job =
     (case sync_state job of
        Queued \<Rightarrow> progressPercent job = 0 \<and> commentsProcessed job = 0
      | Fetching \<Rightarrow>
          progressPercent job = fetch_progress (commentsProcessed job) (commentsTotal job)
      | Analyzing \<Rightarrow> progressPercent job = 70
      | Finalizing \<Rightarrow> progressPercent job = 95
      | Completed \<Rightarrow> progressPercent job = 100
      | Failed \<Rightarrow> progressPercent job \<le> 95)"

text \<open>
  Modelled from the spec: the \<^verbatim>\<open>JobStatus\<close> that \<^verbatim>\<open>getJobStatus\<close> serves for a job. \<open>ids\<close>
  carries the identifiers and time stamps, which the job model leaves out.
\<close>

definition observe :: "JobStatus \<Rightarrow> SyncJob \<Rightarrow> JobStatus" where
  "observe ids job =
     ids\<lparr>job_status := status_of (sync_state job),
         progress := int (progressPercent job),
         totalComments := commentsTotal job,
         processedComments := commentsProcessed job,
         job_error := errorDetail job\<rparr>"

section \<open>Asking the AI (components/video-details/AskAISection.tsx) and the answer cache\<close>

text \<open>The questions the section offers, \<^verbatim>\<open>suggestedQuestions\<close>.\<close>

definition suggestedQuestions :: "string list" where
  "suggestedQuestions =
     [''What are the main themes in these comments?'',
      ''What questions are viewers asking most?'',
      ''What feedback do viewers have about the video?'',
      ''Are there any technical issues mentioned?'',
      ''What do viewers like most about this video?'']"

text \<open>\<^verbatim>\<open>String.prototype.trim\<close>: white space is dropped at both ends.\<close>

definition trim :: "string \<Rightarrow> string" where
  "trim s = rev (dropWhile is_space (rev (dropWhile is_space s)))"

text \<open>
  The guard and the first line of \<^verbatim>\<open>handleAskAI\<close>:
  \<^verbatim>\<open>if (!question.trim() || !videoId) return; const userQuestion = question.trim();\<close>
  The result is the question sent to \<^verbatim>\<open>askAI\<close>, if one is sent. Clicking a suggested
  question puts it in the input (\<^verbatim>\<open>handleSuggestedQuestion\<close>), from where it is submitted
  by this handler.
\<close>

definition userQuestion :: "string \<Rightarrow> string \<Rightarrow> string option" where
  "userQuestion videoId question =
     (if trim question = [] \<or> videoId = [] then None else Some (trim question))"

text \<open>
  Modelled from the spec: the fixed list of canonical questions that \<^verbatim>\<open>warm\<close> runs
  (section 4.6). The backend's list is not among the source files.
\<close>

definition canonical_questions :: "string list" where
  "canonical_questions =
     [''what are people complaining about'',
      ''what questions are people asking'',
      ''what do people love most'',
      ''what should I make next'',
      ''show me toxic comments'']"

text \<open>
  Modelled from the spec: canonicalization of a question (section 4.6): case-fold, trim,
  collapse white space. \<open>squeeze started gap\<close> copies the words of a string with
  single spaces between them: \<open>started\<close> says that a word has been copied, \<open>gap\<close>
  that white space has been seen since.
\<close>

definition case_fold :: "char \<Rightarrow> char" where
  "case_fold c =
     (case map_of (zip ''ABCDEFGHIJKLMNOPQRSTUVWXYZ'' ''abcdefghijklmnopqrstuvwxyz'') c of
        Some l \<Rightarrow> l
      | None \<Rightarrow> c)"

fun squeeze :: "bool \<Rightarrow> bool \<Rightarrow> string \<Rightarrow> string" where
  "squeeze started gap [] = []"
| "squeeze started gap (c # cs) =
     (if is_space c then squeeze started started cs
      else if gap then CHR '' '' # c # squeeze True False cs
      else c # squeeze True False cs)"

definition canonicalize :: "string \<Rightarrow> string" where
  "canonicalize question = squeeze False False (map case_fold question)"

text \<open>
  Modelled from the spec: the state of the Answer Cache (sections 3 and 4.6): for each
  video its pre-generated answers and the lazily populated answers, both keyed by the
  canonicalized question; and the number of calls made to the AI collaborator so far.
\<close>

record AnswerCache =
  preGeneratedAnswers :: "string \<Rightarrow> (string \<rightharpoonup> string)"
  lazyAnswers :: "string \<Rightarrow> (string \<rightharpoonup> string)"
  aiCalls :: nat

definition empty_answers :: AnswerCache where
  "empty_answers =
     \<lparr>preGeneratedAnswers = (\<lambda>video. Map.empty), lazyAnswers = (\<lambda>video. Map.empty), aiCalls = 0\<rparr>"

text \<open>
  Modelled from the spec: \<^verbatim>\<open>lookup(videoRef, question)\<close> canonicalizes the question and
  checks the pre-generated answers first, then the lazily populated cache.
\<close>

definition lookup :: "string \<Rightarrow> string \<Rightarrow> AnswerCache \<Rightarrow> string option" where
  "lookup video question answers =
     (case preGeneratedAnswers answers video (canonicalize question) of
        Some a \<Rightarrow> Some a
      | None \<Rightarrow> lazyAnswers answers video (canonicalize question))"

text \<open>
  Modelled from the spec: one step of \<^verbatim>\<open>warm\<close>: a canonical question goes through the
  Context Pruner, whose intent classification is one AI call, and one AI answer call;
  the answer is stored with the pre-generated answers of the video. \<open>ai\<close> is the AI
  collaborator's answer for a video and a question.
\<close>

definition pregenerate ::
  "(string \<Rightarrow> string \<Rightarrow> string) \<Rightarrow> string \<Rightarrow> AnswerCache \<Rightarrow> string \<Rightarrow> AnswerCache" where
  "pregenerate ai video answers question =
     answers\<lparr>preGeneratedAnswers :=
                (preGeneratedAnswers answers)
                  (video := (preGeneratedAnswers answers video)
                              (canonicalize question \<mapsto> ai video question)),
             aiCalls := aiCalls answers + 2\<rparr>"

text \<open>Modelled from the spec: \<^verbatim>\<open>warm(videoRef)\<close> runs the fixed list of canonical questions.\<close>

definition warm :: "(string \<Rightarrow> string \<Rightarrow> string) \<Rightarrow> string \<Rightarrow> AnswerCache \<Rightarrow> AnswerCache" where
  "warm ai video answers = foldl (pregenerate ai video) answers canonical_questions"

text \<open>
  Modelled from the spec: the question-answering path (sections 2 and 6): the cache is
  checked first and a hit returns at once with \<^verbatim>\<open>cached = true\<close> and no AI call; on a
  miss the pruner's classification and a single AI call answer the question, and the
  result is cached lazily.
\<close>

record Answer =
  answer_text :: string
  cached :: bool

definition answerQuestion ::
  "(string \<Rightarrow> string \<Rightarrow> string) \<Rightarrow> string \<Rightarrow> string \<Rightarrow> AnswerCache \<Rightarrow> Answer \<times> AnswerCache" where
  "answerQuestion ai video question answers =
     (case lookup video question answers of
        Some a \<Rightarrow> (\<lparr>answer_text = a, cached = True\<rparr>, answers)
      | None \<Rightarrow>
          (\<lparr>answer_text = ai video question, cached = False\<rparr>,
           answers\<lparr>lazyAnswers :=
                      (lazyAnswers answers)
                        (video := (lazyAnswers answers video)
                                    (canonicalize question \<mapsto> ai video question)),
                   aiCalls := aiCalls answers + 2\<rparr>))"

section \<open>Properties of the data cache\<close>

lemma str_includes_iff_sublist: "str_includes key pattern \<longleftrightarrow> sublist pattern key"
  by (induction key) (auto simp: sublist_Cons_right)

lemma get_after_set:
  "DataCache_get key t (DataCache_set key v ttl now cache) =
     (if t \<le> now + ttl then (Some v, DataCache_set key v ttl now cache)
      else (None, (DataCache_set key v ttl now cache)(key := None)))"
  by (simp add: DataCache_get_def DataCache_set_def)


lemma step_entry:
  assumes "cache key = Some entry"
  shows "cache_step op cache key =
     (if evicts op key entry then None
      else case replaces op key of Some entry' \<Rightarrow> Some entry' | None \<Rightarrow> Some entry)"
proof (cases op)
  case (OpGet k now)
  show ?thesis
  proof (cases "k = key")
    case True
    with OpGet assms show ?thesis by (simp add: DataCache_get_def)
  next
    case False
    with OpGet assms show ?thesis
      by (cases "cache k") (simp_all add: DataCache_get_def)
  qed
next
  case (OpSet k d ttl now)
  with assms show ?thesis by (simp add: DataCache_set_def)
next
  case (OpInvalidate k)
  with assms show ?thesis by (simp add: DataCache_invalidate_def)
next
  case (OpInvalidatePattern pattern)
  with assms show ?thesis by (simp add: DataCache_invalidatePattern_def)
next
  case OpClear
  then show ?thesis by (simp add: DataCache_clear_def)
qed


lemma program_step_entry:
  assumes "cache key = Some entry"
  shows "fst (program_step op (cache, heap)) key =
     (case op of
        CacheOp c \<Rightarrow>
          if evicts c key entry then None
          else (case replaces c key of Some entry' \<Rightarrow> Some entry' | None \<Rightarrow> Some entry)
      | Mutate r f \<Rightarrow> Some entry)"
  using assms by (cases op) (simp_all add: step_entry)

lemma program_step_contents:
  "contents (snd (program_step op (cache, heap))) r =
     (case op of
        CacheOp c \<Rightarrow> contents heap r
      | Mutate r' f \<Rightarrow> if r' = r then f (contents heap r) else contents heap r)"
  by (cases op) (simp_all add: mutate_def)


lemma program_step_untouched:
  assumes "refs key = Some entry" "\<not> touches op key entry"
  shows "fst (program_step op (refs, heap)) key = Some entry
     \<and> contents (snd (program_step op (refs, heap))) (data entry) = contents heap (data entry)"
proof (cases op)
  case (CacheOp c)
  with assms have "\<not> evicts c key entry" "replaces c key = None" by simp_all
  with assms(1) CacheOp show ?thesis by (simp add: step_entry)
next
  case (Mutate r f)
  with assms show ?thesis by (simp add: mutate_def)
qed

lemma run_program_untouched:
  assumes "refs key = Some entry" "list_all (\<lambda>op. \<not> touches op key entry) ops"
  shows "fst (run_program ops (refs, heap)) key = Some entry
     \<and> contents (snd (run_program ops (refs, heap))) (data entry) = contents heap (data entry)"
  using assms
proof (induction ops arbitrary: refs heap)
  case Nil
  then show ?case by (simp add: run_program_def)
next
  case (Cons op ops)
  obtain refs' heap' where s: "program_step op (refs, heap) = (refs', heap')"
    by (cases "program_step op (refs, heap)")
  from Cons.prems have u: "\<not> touches op key entry"
    and rest: "list_all (\<lambda>op. \<not> touches op key entry) ops"
    by simp_all
  from program_step_untouched [where refs = refs and key = key and entry = entry and op = op
      and heap = heap, OF Cons.prems(1) u] s
  have k: "refs' key = Some entry"
    and c: "contents heap' (data entry) = contents heap (data entry)"
    by simp_all
  from Cons.IH [where refs = refs' and heap = heap', OF k rest] c s show ?case
    by (simp add: run_program_def)
qed


text \<open>
  Claim C5, as the code has it. After \<^verbatim>\<open>set(key, value, ttl)\<close> at time \<open>now\<close>, a
  \<^verbatim>\<open>get(key)\<close> at any time \<open>t \<le> now + ttl\<close> returns the very value that was stored, for
  an object the same reference, and leaves the cache as it is; a \<^verbatim>\<open>get(key)\<close> at a time
  \<open>t > now + ttl\<close> returns null and removes the entry. The cache's own operations never
  change an entry or a stored object in place: after any one step of the program an
  entry is the same entry, or gone because a cache operation evicts it (expired read,
  invalidation, clear), or the fresh entry of a \<^verbatim>\<open>set\<close> on its key, and the contents of
  every object are what they were unless the step is a caller's in-place change of that
  object. So over any sequence of steps none of which touches the entry, the entry and
  the contents of its object are those stored.
\<close>

theorem DataCache_shared_entry_lifetime:
  "DataCache_get key t (DataCache_set key v ttl now cache) =
     (if t \<le> now + ttl then (Some v, DataCache_set key v ttl now cache)
      else (None, (DataCache_set key v ttl now cache)(key := None)))
   \<and> (refs key = Some entry \<longrightarrow>
        fst (program_step op (refs, heap)) key =
          (case op of
             CacheOp c \<Rightarrow>
               if evicts c key entry then None
               else (case replaces c key of Some entry' \<Rightarrow> Some entry' | None \<Rightarrow> Some entry)
           | Mutate r' f \<Rightarrow> Some entry))
   \<and> contents (snd (program_step op (refs, heap))) r =
        (case op of
           CacheOp c \<Rightarrow> contents heap r
         | Mutate r' f \<Rightarrow> if r' = r then f (contents heap r) else contents heap r)
   \<and> (refs key = Some entry \<longrightarrow> list_all (\<lambda>op. \<not> touches op key entry) ops \<longrightarrow>
        fst (run_program ops (refs, heap)) key = Some entry
        \<and> contents (snd (run_program ops (refs, heap))) (data entry) = contents heap (data entry))"
proof (intro conjI impI)
  show "DataCache_get key t (DataCache_set key v ttl now cache) =
     (if t \<le> now + ttl then (Some v, DataCache_set key v ttl now cache)
      else (None, (DataCache_set key v ttl now cache)(key := None)))"
    by (rule get_after_set)
next
  assume "refs key = Some entry"
  then show "fst (program_step op (refs, heap)) key =
          (case op of
             CacheOp c \<Rightarrow>
               if evicts c key entry then None
               else (case replaces c key of Some entry' \<Rightarrow> Some entry' | None \<Rightarrow> Some entry)
           | Mutate r' f \<Rightarrow> Some entry)"
    by (rule program_step_entry)
next
  show "contents (snd (program_step op (refs, heap))) r =
        (case op of
           CacheOp c \<Rightarrow> contents heap r
         | Mutate r' f \<Rightarrow> if r' = r then f (contents heap r) else contents heap r)"
    by (rule program_step_contents)
next
  assume a: "refs key = Some entry" "list_all (\<lambda>op. \<not> touches op key entry) ops"
  from run_program_untouched [where refs = refs and key = key and entry = entry and ops = ops
      and heap = heap, OF a]
  show "fst (run_program ops (refs, heap)) key = Some entry"
    and "contents (snd (run_program ops (refs, heap))) (data entry) = contents heap (data entry)"
    by simp_all
qed

theorem DataCache_shared_entry_lifetime_witness:
  "DataCache_get ''k'' 1500 (DataCache_set ''k'' (7::nat) 1000 500 Map.empty)
     = (Some 7, DataCache_set ''k'' 7 1000 500 Map.empty)
   \<and> [''k'' \<mapsto> \<lparr>data = 7::nat, timestamp = 500, expiresAt = 1500\<rparr>] ''k''
       = Some \<lparr>data = 7, timestamp = 500, expiresAt = 1500\<rparr>
   \<and> fst (program_step (CacheOp (OpGet ''k'' 1501))
        ([''k'' \<mapsto> \<lparr>data = 7::nat, timestamp = 500, expiresAt = 1500\<rparr>],
         \<lparr>contents = (\<lambda>r. [1::nat, 2]), next_ref = 8\<rparr>)) ''k'' = None
   \<and> list_all (\<lambda>op. \<not> touches op ''k'' \<lparr>data = 7::nat, timestamp = 500, expiresAt = 1500\<rparr>)
        [CacheOp (OpGet ''k'' 1500), Mutate 3 rev, CacheOp (OpInvalidate ''other'')]
   \<and> contents (snd (run_program
        [CacheOp (OpGet ''k'' 1500), Mutate 3 rev, CacheOp (OpInvalidate ''other'')]
        ([''k'' \<mapsto> \<lparr>data = 7::nat, timestamp = 500, expiresAt = 1500\<rparr>],
         \<lparr>contents = (\<lambda>r. [1::nat, 2]), next_ref = 8\<rparr>))) 7 = [1, 2]"
proof -
  let ?e = "\<lparr>data = 7::nat, timestamp = 500, expiresAt = 1500\<rparr>"
  let ?h = "\<lparr>contents = (\<lambda>r. [1::nat, 2]), next_ref = 8\<rparr>"
  let ?ops = "[CacheOp (OpGet ''k'' 1500), Mutate 3 rev, CacheOp (OpInvalidate ''other'')]"
  have h: "[''k'' \<mapsto> ?e] ''k'' = Some ?e" by simp
  have a: "DataCache_get ''k'' 1500 (DataCache_set ''k'' (7::nat) 1000 500 Map.empty)
     = (Some 7, DataCache_set ''k'' 7 1000 500 Map.empty)"
    using DataCache_shared_entry_lifetime [where key = "''k''" and t = 1500 and v = "7::nat"
        and ttl = 1000 and now = 500 and cache = Map.empty and refs = Map.empty
        and entry = ?e and op = "Mutate 0 rev" and heap = ?h and r = 0 and ops = "[]"]
    by simp
  have u: "list_all (\<lambda>op. \<not> touches op ''k'' ?e) ?ops" by simp
  note t = DataCache_shared_entry_lifetime [where key = "''k''" and t = 0 and v = "7::nat"
      and ttl = 0 and now = 0 and cache = "[''k'' \<mapsto> ?e]" and refs = "[''k'' \<mapsto> ?e]"
      and entry = ?e and op = "CacheOp (OpGet ''k'' 1501)" and heap = ?h and r = 7
      and ops = ?ops]
  from t h have b: "fst (program_step (CacheOp (OpGet ''k'' 1501)) ([''k'' \<mapsto> ?e], ?h)) ''k''
      = None"
    by simp
  from t h u have "contents (snd (run_program ?ops ([''k'' \<mapsto> ?e], ?h))) (data ?e)
      = contents ?h (data ?e)"
    by blast
  then have c: "contents (snd (run_program ?ops ([''k'' \<mapsto> ?e], ?h))) 7 = [1, 2]"
    by simp
  from a h b u c show ?thesis by blast
qed

text \<open>
  The claim as written has a \<^verbatim>\<open>get\<close> inside the time to live return exactly what was
  stored, never changed in place. The array that \<^verbatim>\<open>getUserVideos\<close> stores under
  \<^verbatim>\<open>user:videos\<close> is the array it returns; the dashboard, served from the cache, sorts
  that array in place, and a \<^verbatim>\<open>get\<close> inside the time to live then returns the stored
  reference with the order of its contents changed.
\<close>

theorem cached_videos_sorted_in_place:
  "fst (DataCache_get ''user:videos'' 20
     (fst (snd (fetchDashboardData (Inr [] :: unit + Video list) 10 10 False
       (snd (getUserVideos
          (Inr [\<lparr>video_id = ''a'', commentCount = 0, video_createdAt = 1\<rparr>,
                \<lparr>video_id = ''b'', commentCount = 0, video_createdAt = 2\<rparr>] :: unit + Video list)
          0 0 False (Map.empty, \<lparr>contents = (\<lambda>r. []), next_ref = 0\<rparr>))))))) = Some 0
  \<and> contents (snd (snd (getUserVideos
          (Inr [\<lparr>video_id = ''a'', commentCount = 0, video_createdAt = 1\<rparr>,
                \<lparr>video_id = ''b'', commentCount = 0, video_createdAt = 2\<rparr>] :: unit + Video list)
          0 0 False (Map.empty, \<lparr>contents = (\<lambda>r. []), next_ref = 0\<rparr>)))) 0
     = [\<lparr>video_id = ''a'', commentCount = 0, video_createdAt = 1\<rparr>,
        \<lparr>video_id = ''b'', commentCount = 0, video_createdAt = 2\<rparr>]
  \<and> contents (snd (snd (fetchDashboardData (Inr [] :: unit + Video list) 10 10 False
       (snd (getUserVideos
          (Inr [\<lparr>video_id = ''a'', commentCount = 0, video_createdAt = 1\<rparr>,
                \<lparr>video_id = ''b'', commentCount = 0, video_createdAt = 2\<rparr>] :: unit + Video list)
          0 0 False (Map.empty, \<lparr>contents = (\<lambda>r. []), next_ref = 0\<rparr>)))))) 0
     = [\<lparr>video_id = ''b'', commentCount = 0, video_createdAt = 2\<rparr>,
        \<lparr>video_id = ''a'', commentCount = 0, video_createdAt = 1\<rparr>]"
  by (simp add: getUserVideos_def fetchDashboardData_def DataCache_get_def DataCache_set_default_def
      DataCache_set_def USER_VIDEOS_def alloc_def mutate_def newest_first_def defaultTTL_def Let_def)

lemma invalidateVideosCache_apply:
  "invalidateVideosCache cache key = (if videos_key key then None else cache key)"
  by (simp add: invalidateVideosCache_def DataCache_invalidatePattern_def
      DataCache_invalidate_def videos_key_def)

lemma DataCache_get_miss: "cache key = None \<Longrightarrow> DataCache_get key now cache = (None, cache)"
  by (simp add: DataCache_get_def)

text \<open>
  Claim C8. After \<^verbatim>\<open>invalidateVideosCache()\<close>, no entry remains whose key is the user-videos
  key or contains \<^verbatim>\<open>video:\<close> or \<^verbatim>\<open>comments:\<close>, so a lookup of such a key at any time
  misses (and changes nothing further); every entry under a key that matches none of the
  three is left as it was.
\<close>

theorem invalidateVideosCache_effect:
  "(videos_key key \<longrightarrow>
      invalidateVideosCache cache key = None
      \<and> DataCache_get key now (invalidateVideosCache cache) = (None, invalidateVideosCache cache))
   \<and> (\<not> videos_key key \<longrightarrow> invalidateVideosCache cache key = cache key)"
  by (simp add: invalidateVideosCache_apply DataCache_get_miss)

theorem invalidateVideosCache_effect_witness:
  "videos_key ''video:abc''
   \<and> invalidateVideosCache
        [''video:abc'' \<mapsto> \<lparr>data = 1::nat, timestamp = 0, expiresAt = 9\<rparr>,
         ''user:profile'' \<mapsto> \<lparr>data = 2, timestamp = 0, expiresAt = 9\<rparr>] ''video:abc'' = None
   \<and> \<not> videos_key ''user:profile''
   \<and> invalidateVideosCache
        [''video:abc'' \<mapsto> \<lparr>data = 1::nat, timestamp = 0, expiresAt = 9\<rparr>,
         ''user:profile'' \<mapsto> \<lparr>data = 2, timestamp = 0, expiresAt = 9\<rparr>] ''user:profile''
       = Some \<lparr>data = 2, timestamp = 0, expiresAt = 9\<rparr>"
proof -
  let ?c = "[''video:abc'' \<mapsto> \<lparr>data = 1::nat, timestamp = 0, expiresAt = 9\<rparr>,
             ''user:profile'' \<mapsto> \<lparr>data = 2, timestamp = 0, expiresAt = 9\<rparr>]"
  have k1: "videos_key ''video:abc''" by (simp add: videos_key_def)
  have k2: "\<not> videos_key ''user:profile''" by (simp add: videos_key_def USER_VIDEOS_def)
  have a: "invalidateVideosCache ?c ''video:abc'' = None"
    using invalidateVideosCache_effect [of "''video:abc''" ?c 0] k1 by blast
  have b: "invalidateVideosCache ?c ''user:profile'' = ?c ''user:profile''"
    using invalidateVideosCache_effect [of "''user:profile''" ?c 0] k2 by blast
  have c: "?c ''user:profile'' = Some \<lparr>data = 2, timestamp = 0, expiresAt = 9\<rparr>" by simp
  from k1 a k2 b c show ?thesis by simp
qed

section \<open>Properties of the cached queries\<close>

lemma append_string_nil:
  "append_string nm s params = [] \<longleftrightarrow> params = [] \<and> \<not> truthy_string s"
  by (auto simp: append_string_def truthy_string_def split: option.splits)

lemma append_number_nil:
  "append_number nm n params = [] \<longleftrightarrow> params = [] \<and> \<not> truthy_number n"
  by (auto simp: append_number_def truthy_number_def split: option.splits)

lemma append_defined_nil:
  "append_defined nm n params = [] \<longleftrightarrow> params = [] \<and> n = None"
  by (auto simp: append_defined_def split: option.splits)

lemma getVideoComments_params_nil:
  "getVideoComments_params filters = [] \<longleftrightarrow> \<not> comment_filter_set filters"
  by (cases filters)
     (auto simp: getVideoComments_params_def comment_filter_set_def append_string_nil
        append_number_nil append_defined_nil Let_def)

lemma getAlerts_params_nil:
  "getAlerts_params filters = [] \<longleftrightarrow> \<not> alert_filter_set filters"
  by (cases filters)
     (auto simp: getAlerts_params_def alert_filter_set_def append_string_nil
        append_number_nil Let_def)

lemma getVideoComments_filtered:
  assumes "comment_filter_set filters"
  shows "getVideoComments net now_read now_write vid filters skipCache cache =
     (net \<lparr>path = ''/api/videos/'' @ vid @ ''/comments'',
                queryString = getVideoComments_params filters\<rparr>,
      cache,
      [\<lparr>path = ''/api/videos/'' @ vid @ ''/comments'',
        queryString = getVideoComments_params filters\<rparr>])"
proof -
  from assms have "getVideoComments_params filters \<noteq> []"
    by (simp add: getVideoComments_params_nil)
  then show ?thesis
    by (simp add: getVideoComments_def Let_def split: sum.splits)
qed

lemma getAlerts_filtered:
  assumes "alert_filter_set filters"
  shows "getAlerts net now_read now_write filters skipCache cache =
     (net \<lparr>path = ''/api/alerts'', queryString = getAlerts_params filters\<rparr>,
      cache,
      [\<lparr>path = ''/api/alerts'', queryString = getAlerts_params filters\<rparr>])"
proof -
  from assms have "getAlerts_params filters \<noteq> []"
    by (simp add: getAlerts_params_nil)
  then show ?thesis
    by (simp add: getAlerts_def Let_def split: sum.splits)
qed

lemma DataCache_get_hit:
  "fst (DataCache_get key now cache) = Some hit \<Longrightarrow>
   DataCache_get key now cache = (Some hit, cache)"
  by (auto simp: DataCache_get_def split: option.splits if_splits)

lemma getVideoComments_served:
  assumes "\<not> comment_filter_set filters" "\<not> skipCache"
    "fst (DataCache_get (VIDEO_COMMENTS vid) now_read cache) = Some hit"
  shows "getVideoComments net now_read now_write vid filters skipCache cache
     = (Inr hit, cache, [])"
proof -
  from assms(1) have "getVideoComments_params filters = []"
    by (simp add: getVideoComments_params_nil)
  with assms(2) DataCache_get_hit [OF assms(3)] show ?thesis
    by (simp add: getVideoComments_def Let_def)
qed

lemma getVideoComments_fetched:
  assumes "\<not> comment_filter_set filters"
    "skipCache \<or> fst (DataCache_get (VIDEO_COMMENTS vid) now_read cache) = None"
  shows "getVideoComments net now_read now_write vid filters skipCache cache
     = (case net \<lparr>path = ''/api/videos/'' @ vid @ ''/comments'', queryString = []\<rparr> of
          Inl err \<Rightarrow>
            (Inl err,
             if skipCache then cache else snd (DataCache_get (VIDEO_COMMENTS vid) now_read cache),
             [\<lparr>path = ''/api/videos/'' @ vid @ ''/comments'', queryString = []\<rparr>])
        | Inr response \<Rightarrow>
            (Inr response,
             DataCache_set_default (VIDEO_COMMENTS vid) response now_write
               (if skipCache then cache
                else snd (DataCache_get (VIDEO_COMMENTS vid) now_read cache)),
             [\<lparr>path = ''/api/videos/'' @ vid @ ''/comments'', queryString = []\<rparr>]))"
proof -
  from assms(1) have p: "getVideoComments_params filters = []"
    by (simp add: getVideoComments_params_nil)
  show ?thesis
  proof (cases skipCache)
    case True
    with p show ?thesis by (simp add: getVideoComments_def Let_def split: sum.splits)
  next
    case False
    with assms(2) have "fst (DataCache_get (VIDEO_COMMENTS vid) now_read cache) = None" by simp
    then obtain c where "DataCache_get (VIDEO_COMMENTS vid) now_read cache = (None, c)"
      by (cases "DataCache_get (VIDEO_COMMENTS vid) now_read cache") simp
    with p False show ?thesis by (simp add: getVideoComments_def Let_def split: sum.splits)
  qed
qed

lemma getAlerts_served:
  assumes "\<not> alert_filter_set filters" "\<not> skipCache"
    "fst (DataCache_get ''alerts:all'' now_read cache) = Some hit"
  shows "getAlerts net now_read now_write filters skipCache cache = (Inr hit, cache, [])"
proof -
  from assms(1) have "getAlerts_params filters = []"
    by (simp add: getAlerts_params_nil)
  with assms(2) DataCache_get_hit [OF assms(3)] show ?thesis
    by (simp add: getAlerts_def Let_def)
qed

lemma getAlerts_fetched:
  assumes "\<not> alert_filter_set filters"
    "skipCache \<or> fst (DataCache_get ''alerts:all'' now_read cache) = None"
  shows "getAlerts net now_read now_write filters skipCache cache
     = (case net \<lparr>path = ''/api/alerts'', queryString = []\<rparr> of
          Inl err \<Rightarrow>
            (Inl err,
             if skipCache then cache else snd (DataCache_get ''alerts:all'' now_read cache),
             [\<lparr>path = ''/api/alerts'', queryString = []\<rparr>])
        | Inr response \<Rightarrow>
            (Inr response,
             DataCache_set ''alerts:all'' response (2 * 60 * 1000) now_write
               (if skipCache then cache else snd (DataCache_get ''alerts:all'' now_read cache)),
             [\<lparr>path = ''/api/alerts'', queryString = []\<rparr>]))"
proof -
  from assms(1) have p: "getAlerts_params filters = []"
    by (simp add: getAlerts_params_nil)
  show ?thesis
  proof (cases skipCache)
    case True
    with p show ?thesis by (simp add: getAlerts_def Let_def split: sum.splits)
  next
    case False
    with assms(2) have "fst (DataCache_get ''alerts:all'' now_read cache) = None" by simp
    then obtain c where "DataCache_get ''alerts:all'' now_read cache = (None, c)"
      by (cases "DataCache_get ''alerts:all'' now_read cache") simp
    with p False show ?thesis by (simp add: getAlerts_def Let_def split: sum.splits)
  qed
qed

lemma stored_is_served:
  "t \<le> now + ttl \<Longrightarrow> fst (DataCache_get key t (DataCache_set key v ttl now cache)) = Some v"
  by (simp add: get_after_set)


text \<open>
  Claim C10, as the code has it. A comments or alerts query in which some filter field
  passes its guard (a non-empty string, a non-zero \<^verbatim>\<open>limit\<close> or \<^verbatim>\<open>offset\<close>, \<^verbatim>\<open>unreadOnly\<close>
  true, any defined \<^verbatim>\<open>minToxicity\<close>) neither reads nor writes the cache: the result is
  what the network call gives, exactly one request is sent, and the cache is unchanged,
  whatever \<^verbatim>\<open>skipCache\<close> is. A query in which no filter field passes its guard is the
  unfiltered one. Unless \<^verbatim>\<open>skipCache\<close> is set, it is served from the cache when the read
  finds an unexpired entry: the cached response is returned, no request is sent, the
  cache is unchanged. Otherwise it goes to the network with an empty query string; a
  response is stored under the query's key (\<^verbatim>\<open>comments:<videoId>\<close> for the default time
  to live, \<^verbatim>\<open>alerts:all\<close> for two minutes), where a read within the time to live finds
  it, and an error stores nothing.
\<close>

theorem filtered_query_bypasses_cache:
  "(comment_filter_set filters \<longrightarrow>
      getVideoComments net now_read now_write vid filters skipCache cache =
        (net (comments_url vid filters), cache, [comments_url vid filters]))
   \<and> (\<not> comment_filter_set filters \<longrightarrow> \<not> skipCache \<longrightarrow>
        fst (DataCache_get (VIDEO_COMMENTS vid) now_read cache) = Some hit \<longrightarrow>
        getVideoComments net now_read now_write vid filters skipCache cache
          = (Inr hit, cache, []))
   \<and> (\<not> comment_filter_set filters \<longrightarrow>
        skipCache \<or> fst (DataCache_get (VIDEO_COMMENTS vid) now_read cache) = None \<longrightarrow>
        net (comments_url vid filters) = Inr response \<longrightarrow>
        getVideoComments net now_read now_write vid filters skipCache cache
          = (Inr response,
             DataCache_set_default (VIDEO_COMMENTS vid) response now_write
               (after_read skipCache (VIDEO_COMMENTS vid) now_read cache),
             [comments_url vid filters])
        \<and> queryString (comments_url vid filters) = []
        \<and> (t \<le> now_write + defaultTTL \<longrightarrow>
             fst (DataCache_get (VIDEO_COMMENTS vid) t
                    (fst (snd (getVideoComments net now_read now_write vid filters skipCache
                                 cache))))
               = Some response))
   \<and> (\<not> comment_filter_set filters \<longrightarrow>
        skipCache \<or> fst (DataCache_get (VIDEO_COMMENTS vid) now_read cache) = None \<longrightarrow>
        net (comments_url vid filters) = Inl err \<longrightarrow>
        getVideoComments net now_read now_write vid filters skipCache cache
          = (Inl err, after_read skipCache (VIDEO_COMMENTS vid) now_read cache,
             [comments_url vid filters]))
   \<and> (alert_filter_set afilters \<longrightarrow>
        getAlerts net' now_read now_write afilters skipCache cache' =
          (net' (alerts_url afilters), cache', [alerts_url afilters]))
   \<and> (\<not> alert_filter_set afilters \<longrightarrow> \<not> skipCache \<longrightarrow>
        fst (DataCache_get ''alerts:all'' now_read cache') = Some hit' \<longrightarrow>
        getAlerts net' now_read now_write afilters skipCache cache' = (Inr hit', cache', []))
   \<and> (\<not> alert_filter_set afilters \<longrightarrow>
        skipCache \<or> fst (DataCache_get ''alerts:all'' now_read cache') = None \<longrightarrow>
        net' (alerts_url afilters) = Inr response' \<longrightarrow>
        getAlerts net' now_read now_write afilters skipCache cache'
          = (Inr response',
             DataCache_set ''alerts:all'' response' (2 * 60 * 1000) now_write
               (after_read skipCache ''alerts:all'' now_read cache'),
             [alerts_url afilters])
        \<and> queryString (alerts_url afilters) = []
        \<and> (t \<le> now_write + 2 * 60 * 1000 \<longrightarrow>
             fst (DataCache_get ''alerts:all'' t
                    (fst (snd (getAlerts net' now_read now_write afilters skipCache cache'))))
               = Some response'))
   \<and> (\<not> alert_filter_set afilters \<longrightarrow>
        skipCache \<or> fst (DataCache_get ''alerts:all'' now_read cache') = None \<longrightarrow>
        net' (alerts_url afilters) = Inl err' \<longrightarrow>
        getAlerts net' now_read now_write afilters skipCache cache'
          = (Inl err', after_read skipCache ''alerts:all'' now_read cache',
             [alerts_url afilters]))"
proof (intro conjI impI)
  assume "comment_filter_set filters"
  then show "getVideoComments net now_read now_write vid filters skipCache cache =
      (net (comments_url vid filters), cache, [comments_url vid filters])"
    by (simp add: getVideoComments_filtered comments_url_def)
next
  assume "\<not> comment_filter_set filters" "\<not> skipCache"
    "fst (DataCache_get (VIDEO_COMMENTS vid) now_read cache) = Some hit"
  then show "getVideoComments net now_read now_write vid filters skipCache cache
      = (Inr hit, cache, [])"
    by (rule getVideoComments_served)
next
  assume a: "\<not> comment_filter_set filters"
    "skipCache \<or> fst (DataCache_get (VIDEO_COMMENTS vid) now_read cache) = None"
    and n: "net (comments_url vid filters) = Inr response"
  from a(1) have p: "getVideoComments_params filters = []"
    by (simp add: getVideoComments_params_nil)
  from n p have n': "net \<lparr>path = ''/api/videos/'' @ vid @ ''/comments'', queryString = []\<rparr>
      = Inr response"
    by (simp add: comments_url_def)
  from getVideoComments_fetched [where net = net and now_write = now_write, OF a] n' p
  show r: "getVideoComments net now_read now_write vid filters skipCache cache
      = (Inr response,
         DataCache_set_default (VIDEO_COMMENTS vid) response now_write
           (after_read skipCache (VIDEO_COMMENTS vid) now_read cache),
         [comments_url vid filters])"
    by (simp add: comments_url_def after_read_def)
  from p show "queryString (comments_url vid filters) = []"
    by (simp add: comments_url_def)
  assume "t \<le> now_write + defaultTTL"
  then show "fst (DataCache_get (VIDEO_COMMENTS vid) t
      (fst (snd (getVideoComments net now_read now_write vid filters skipCache cache))))
      = Some response"
    unfolding r by (simp add: DataCache_set_default_def stored_is_served)
next
  assume a: "\<not> comment_filter_set filters"
    "skipCache \<or> fst (DataCache_get (VIDEO_COMMENTS vid) now_read cache) = None"
    and n: "net (comments_url vid filters) = Inl err"
  from a(1) have p: "getVideoComments_params filters = []"
    by (simp add: getVideoComments_params_nil)
  from n p have n': "net \<lparr>path = ''/api/videos/'' @ vid @ ''/comments'', queryString = []\<rparr>
      = Inl err"
    by (simp add: comments_url_def)
  from getVideoComments_fetched [where net = net and now_write = now_write, OF a] n' p
  show "getVideoComments net now_read now_write vid filters skipCache cache
      = (Inl err, after_read skipCache (VIDEO_COMMENTS vid) now_read cache,
         [comments_url vid filters])"
    by (simp add: comments_url_def after_read_def)
next
  assume "alert_filter_set afilters"
  then show "getAlerts net' now_read now_write afilters skipCache cache' =
      (net' (alerts_url afilters), cache', [alerts_url afilters])"
    by (simp add: getAlerts_filtered alerts_url_def)
next
  assume "\<not> alert_filter_set afilters" "\<not> skipCache"
    "fst (DataCache_get ''alerts:all'' now_read cache') = Some hit'"
  then show "getAlerts net' now_read now_write afilters skipCache cache' = (Inr hit', cache', [])"
    by (rule getAlerts_served)
next
  assume a: "\<not> alert_filter_set afilters"
    "skipCache \<or> fst (DataCache_get ''alerts:all'' now_read cache') = None"
    and n: "net' (alerts_url afilters) = Inr response'"
  from a(1) have p: "getAlerts_params afilters = []"
    by (simp add: getAlerts_params_nil)
  from n p have n': "net' \<lparr>path = ''/api/alerts'', queryString = []\<rparr> = Inr response'"
    by (simp add: alerts_url_def)
  from getAlerts_fetched [where net = net' and now_write = now_write, OF a] n' p
  show r: "getAlerts net' now_read now_write afilters skipCache cache'
      = (Inr response',
         DataCache_set ''alerts:all'' response' (2 * 60 * 1000) now_write
           (after_read skipCache ''alerts:all'' now_read cache'),
         [alerts_url afilters])"
    by (simp add: alerts_url_def after_read_def)
  from p show "queryString (alerts_url afilters) = []"
    by (simp add: alerts_url_def)
  assume "t \<le> now_write + 2 * 60 * 1000"
  then show "fst (DataCache_get ''alerts:all'' t
      (fst (snd (getAlerts net' now_read now_write afilters skipCache cache')))) = Some response'"
    unfolding r by (simp add: stored_is_served)
next
  assume a: "\<not> alert_filter_set afilters"
    "skipCache \<or> fst (DataCache_get ''alerts:all'' now_read cache') = None"
    and n: "net' (alerts_url afilters) = Inl err'"
  from a(1) have p: "getAlerts_params afilters = []"
    by (simp add: getAlerts_params_nil)
  from n p have n': "net' \<lparr>path = ''/api/alerts'', queryString = []\<rparr> = Inl err'"
    by (simp add: alerts_url_def)
  from getAlerts_fetched [where net = net' and now_write = now_write, OF a] n' p
  show "getAlerts net' now_read now_write afilters skipCache cache'
      = (Inl err', after_read skipCache ''alerts:all'' now_read cache', [alerts_url afilters])"
    by (simp add: alerts_url_def after_read_def)
qed

theorem filtered_query_bypasses_cache_witness:
  "comment_filter_set
      (Some \<lparr>category = None, sentiment = None, minToxicity = None, search = Some ''bug'',
             sortBy = None, order = None, limit = None, offset = None\<rparr>)
   \<and> getVideoComments (\<lambda>u. Inr ''from network'' :: unit + string) 50 60 ''v1''
        (Some \<lparr>category = None, sentiment = None, minToxicity = None, search = Some ''bug'',
               sortBy = None, order = None, limit = None, offset = None\<rparr>) False
        [''comments:v1'' \<mapsto> \<lparr>data = ''from cache'', timestamp = 0, expiresAt = 100\<rparr>]
      = (Inr ''from network'',
         [''comments:v1'' \<mapsto> \<lparr>data = ''from cache'', timestamp = 0, expiresAt = 100\<rparr>],
         [\<lparr>path = ''/api/videos/v1/comments'',
           queryString = [(''search'', StringValue ''bug'')]\<rparr>])
   \<and> \<not> comment_filter_set None
   \<and> getVideoComments (\<lambda>u. Inr ''from network'' :: unit + string) 50 60 ''v1'' None False
        [''comments:v1'' \<mapsto> \<lparr>data = ''from cache'', timestamp = 0, expiresAt = 100\<rparr>]
      = (Inr ''from cache'',
         [''comments:v1'' \<mapsto> \<lparr>data = ''from cache'', timestamp = 0, expiresAt = 100\<rparr>], [])
   \<and> getVideoComments (\<lambda>u. Inr ''from network'' :: unit + string) 150 160 ''v1'' None False
        [''comments:v1'' \<mapsto> \<lparr>data = ''from cache'', timestamp = 0, expiresAt = 100\<rparr>]
      = (Inr ''from network'',
         [''comments:v1'' \<mapsto> \<lparr>data = ''from network'', timestamp = 160, expiresAt = 300160\<rparr>],
         [\<lparr>path = ''/api/videos/v1/comments'', queryString = []\<rparr>])
   \<and> fst (DataCache_get ''comments:v1'' 300160
        (fst (snd (getVideoComments (\<lambda>u. Inr ''from network'' :: unit + string) 150 160 ''v1''
           None False
           [''comments:v1'' \<mapsto> \<lparr>data = ''from cache'', timestamp = 0, expiresAt = 100\<rparr>]))))
      = Some ''from network''
   \<and> getVideoComments (\<lambda>u. Inl () :: unit + string) 50 60 ''v1'' None True
        [''comments:v1'' \<mapsto> \<lparr>data = ''from cache'', timestamp = 0, expiresAt = 100\<rparr>]
      = (Inl (),
         [''comments:v1'' \<mapsto> \<lparr>data = ''from cache'', timestamp = 0, expiresAt = 100\<rparr>],
         [\<lparr>path = ''/api/videos/v1/comments'', queryString = []\<rparr>])
   \<and> alert_filter_set
        (Some \<lparr>unreadOnly = Some True, alertType = None, severity = None,
               AlertFilters.limit = None\<rparr>)
   \<and> getAlerts (\<lambda>u. Inr ''from network'' :: unit + string) 50 60
        (Some \<lparr>unreadOnly = Some True, alertType = None, severity = None,
               AlertFilters.limit = None\<rparr>) False
        [''alerts:all'' \<mapsto> \<lparr>data = ''from cache'', timestamp = 0, expiresAt = 100\<rparr>]
      = (Inr ''from network'',
         [''alerts:all'' \<mapsto> \<lparr>data = ''from cache'', timestamp = 0, expiresAt = 100\<rparr>],
         [\<lparr>path = ''/api/alerts'', queryString = [(''unread_only'', StringValue ''true'')]\<rparr>])
   \<and> \<not> alert_filter_set None
   \<and> getAlerts (\<lambda>u. Inr ''from network'' :: unit + string) 50 60 None False
        [''alerts:all'' \<mapsto> \<lparr>data = ''from cache'', timestamp = 0, expiresAt = 100\<rparr>]
      = (Inr ''from cache'',
         [''alerts:all'' \<mapsto> \<lparr>data = ''from cache'', timestamp = 0, expiresAt = 100\<rparr>], [])
   \<and> getAlerts (\<lambda>u. Inr ''from network'' :: unit + string) 50 60 None True
        [''alerts:all'' \<mapsto> \<lparr>data = ''from cache'', timestamp = 0, expiresAt = 100\<rparr>]
      = (Inr ''from network'',
         [''alerts:all'' \<mapsto> \<lparr>data = ''from network'', timestamp = 60, expiresAt = 120060\<rparr>],
         [\<lparr>path = ''/api/alerts'', queryString = []\<rparr>])
   \<and> fst (DataCache_get ''alerts:all'' 120060
        (fst (snd (getAlerts (\<lambda>u. Inr ''from network'' :: unit + string) 50 60 None True
           [''alerts:all'' \<mapsto> \<lparr>data = ''from cache'', timestamp = 0, expiresAt = 100\<rparr>]))))
      = Some ''from network''
   \<and> getAlerts (\<lambda>u. Inl () :: unit + string) 150 160 None False
        [''alerts:all'' \<mapsto> \<lparr>data = ''from cache'', timestamp = 0, expiresAt = 100\<rparr>]
      = (Inl (), Map.empty, [\<lparr>path = ''/api/alerts'', queryString = []\<rparr>])"
proof -
  let ?net = "\<lambda>u::ApiUrl. Inr ''from network'' :: unit + string"
  let ?bad = "\<lambda>u::ApiUrl. Inl () :: unit + string"
  let ?cf = "Some \<lparr>category = None, sentiment = None, minToxicity = None, search = Some ''bug'',
      sortBy = None, order = None, limit = None, offset = None\<rparr>"
  let ?af = "Some \<lparr>unreadOnly = Some True, alertType = None, severity = None,
      AlertFilters.limit = None\<rparr>"
  let ?cc = "[''comments:v1'' \<mapsto> \<lparr>data = ''from cache'', timestamp = 0, expiresAt = 100\<rparr>]"
  let ?ac = "[''alerts:all'' \<mapsto> \<lparr>data = ''from cache'', timestamp = 0, expiresAt = 100\<rparr>]"
  have cf: "comment_filter_set ?cf"
    by (simp add: comment_filter_set_def truthy_string_def truthy_number_def)
  have cn: "\<not> comment_filter_set None" by (simp add: comment_filter_set_def)
  have af: "alert_filter_set ?af"
    by (simp add: alert_filter_set_def truthy_string_def truthy_number_def truthy_boolean_def)
  have an: "\<not> alert_filter_set None" by (simp add: alert_filter_set_def)
  have cu: "comments_url ''v1'' ?cf = \<lparr>path = ''/api/videos/v1/comments'',
      queryString = [(''search'', StringValue ''bug'')]\<rparr>"
    by (simp add: comments_url_def getVideoComments_params_def append_string_def
        append_number_def append_defined_def Let_def)
  have cu0: "comments_url ''v1'' None = \<lparr>path = ''/api/videos/v1/comments'', queryString = []\<rparr>"
    by (simp add: comments_url_def getVideoComments_params_def)
  have au: "alerts_url ?af = \<lparr>path = ''/api/alerts'',
      queryString = [(''unread_only'', StringValue ''true'')]\<rparr>"
    by (simp add: alerts_url_def getAlerts_params_def append_string_def append_number_def
        truthy_boolean_def Let_def)
  have au0: "alerts_url None = \<lparr>path = ''/api/alerts'', queryString = []\<rparr>"
    by (simp add: alerts_url_def getAlerts_params_def)
  have ch: "fst (DataCache_get (VIDEO_COMMENTS ''v1'') 50 ?cc) = Some ''from cache''"
    by (simp add: DataCache_get_def VIDEO_COMMENTS_def)
  have cm: "fst (DataCache_get (VIDEO_COMMENTS ''v1'') 150 ?cc) = None"
    by (simp add: DataCache_get_def VIDEO_COMMENTS_def)
  have ca: "after_read False (VIDEO_COMMENTS ''v1'') 150 ?cc = Map.empty"
    by (simp add: after_read_def DataCache_get_def VIDEO_COMMENTS_def)
  have ah: "fst (DataCache_get ''alerts:all'' 50 ?ac) = Some ''from cache''"
    by (simp add: DataCache_get_def)
  have am: "fst (DataCache_get ''alerts:all'' 150 ?ac) = None"
    by (simp add: DataCache_get_def)
  have aa: "after_read False ''alerts:all'' 150 ?ac = Map.empty"
    by (simp add: after_read_def DataCache_get_def)
  have w1: "getVideoComments ?net 50 60 ''v1'' ?cf False ?cc
      = (Inr ''from network'', ?cc, [\<lparr>path = ''/api/videos/v1/comments'',
           queryString = [(''search'', StringValue ''bug'')]\<rparr>])"
    using filtered_query_bypasses_cache [where filters = ?cf and net = ?net and now_read = 50
        and now_write = 60 and vid = "''v1''" and skipCache = False and cache = ?cc
        and hit = "''x''" and response = "''x''" and err = "()" and t = 0
        and afilters = None and net' = ?net and cache' = ?ac and hit' = "''x''"
        and response' = "''x''" and err' = "()"] cf cu
    by simp
  have w2: "getVideoComments ?net 50 60 ''v1'' None False ?cc = (Inr ''from cache'', ?cc, [])"
    using filtered_query_bypasses_cache [where filters = None and net = ?net and now_read = 50
        and now_write = 60 and vid = "''v1''" and skipCache = False and cache = ?cc
        and hit = "''from cache''" and response = "''x''" and err = "()" and t = 0
        and afilters = None and net' = ?net and cache' = ?ac and hit' = "''x''"
        and response' = "''x''" and err' = "()"] cn ch
    by simp
  have w3: "getVideoComments ?net 150 160 ''v1'' None False ?cc
      = (Inr ''from network'',
         [''comments:v1'' \<mapsto> \<lparr>data = ''from network'', timestamp = 160, expiresAt = 300160\<rparr>],
         [\<lparr>path = ''/api/videos/v1/comments'', queryString = []\<rparr>])
     \<and> fst (DataCache_get ''comments:v1'' 300160
          (fst (snd (getVideoComments ?net 150 160 ''v1'' None False ?cc))))
        = Some ''from network''"
    using filtered_query_bypasses_cache [where filters = None and net = ?net and now_read = 150
        and now_write = 160 and vid = "''v1''" and skipCache = False and cache = ?cc
        and hit = "''x''" and response = "''from network''" and err = "()" and t = 300160
        and afilters = None and net' = ?net and cache' = ?ac and hit' = "''x''"
        and response' = "''x''" and err' = "()"] cn cm cu0 ca
    by (simp add: DataCache_set_default_def DataCache_set_def defaultTTL_def VIDEO_COMMENTS_def
        DataCache_get_def)
  have w4: "getVideoComments ?bad 50 60 ''v1'' None True ?cc
      = (Inl (), ?cc, [\<lparr>path = ''/api/videos/v1/comments'', queryString = []\<rparr>])"
    using filtered_query_bypasses_cache [where filters = None and net = ?bad and now_read = 50
        and now_write = 60 and vid = "''v1''" and skipCache = True and cache = ?cc
        and hit = "''x''" and response = "''x''" and err = "()" and t = 0
        and afilters = None and net' = ?net and cache' = ?ac and hit' = "''x''"
        and response' = "''x''" and err' = "()"] cn cu0
    by (simp add: after_read_def)
  have w5: "getAlerts ?net 50 60 ?af False ?ac
      = (Inr ''from network'', ?ac,
         [\<lparr>path = ''/api/alerts'', queryString = [(''unread_only'', StringValue ''true'')]\<rparr>])"
    using filtered_query_bypasses_cache [where filters = None and net = ?net and now_read = 50
        and now_write = 60 and vid = "''v1''" and skipCache = False and cache = ?cc
        and hit = "''x''" and response = "''x''" and err = "()" and t = 0
        and afilters = ?af and net' = ?net and cache' = ?ac and hit' = "''x''"
        and response' = "''x''" and err' = "()"] af au
    by simp
  have w6: "getAlerts ?net 50 60 None False ?ac = (Inr ''from cache'', ?ac, [])"
    using filtered_query_bypasses_cache [where filters = None and net = ?net and now_read = 50
        and now_write = 60 and vid = "''v1''" and skipCache = False and cache = ?cc
        and hit = "''x''" and response = "''x''" and err = "()" and t = 0
        and afilters = None and net' = ?net and cache' = ?ac and hit' = "''from cache''"
        and response' = "''x''" and err' = "()"] an ah
    by simp
  have w7: "getAlerts ?net 50 60 None True ?ac
      = (Inr ''from network'',
         [''alerts:all'' \<mapsto> \<lparr>data = ''from network'', timestamp = 60, expiresAt = 120060\<rparr>],
         [\<lparr>path = ''/api/alerts'', queryString = []\<rparr>])
     \<and> fst (DataCache_get ''alerts:all'' 120060
          (fst (snd (getAlerts ?net 50 60 None True ?ac)))) = Some ''from network''"
    using filtered_query_bypasses_cache [where filters = None and net = ?net and now_read = 50
        and now_write = 60 and vid = "''v1''" and skipCache = True and cache = ?cc
        and hit = "''x''" and response = "''x''" and err = "()" and t = 120060
        and afilters = None and net' = ?net and cache' = ?ac and hit' = "''x''"
        and response' = "''from network''" and err' = "()"] an au0
    by (simp add: DataCache_set_def after_read_def DataCache_get_def)
  have w8: "getAlerts ?bad 150 160 None False ?ac
      = (Inl (), Map.empty, [\<lparr>path = ''/api/alerts'', queryString = []\<rparr>])"
    using filtered_query_bypasses_cache [where filters = None and net = ?net and now_read = 150
        and now_write = 160 and vid = "''v1''" and skipCache = False and cache = ?cc
        and hit = "''x''" and response = "''x''" and err = "()" and t = 0
        and afilters = None and net' = ?bad and cache' = ?ac and hit' = "''x''"
        and response' = "''x''" and err' = "()"] an am au0 aa
    by simp
  from cf cn af an w1 w2 w3 w4 w5 w6 w7 w8 show ?thesis by blast
qed

text \<open>
  The claim as written counts every filter parameter the query carries. A query that
  carries only \<^verbatim>\<open>offset: 0\<close> (comments) or only \<^verbatim>\<open>unreadOnly: false\<close> (alerts) fails the
  guards, builds an empty query string and is answered from the cache with no request.
\<close>

theorem falsy_filter_served_from_cache:
  "getVideoComments (\<lambda>url. Inr ''from network'' :: unit + string) 50 60 ''v1''
      (Some \<lparr>category = None, sentiment = None, minToxicity = None, search = None,
             sortBy = None, order = None, limit = None, offset = Some 0\<rparr>) False
      [''comments:v1'' \<mapsto> \<lparr>data = ''from cache'', timestamp = 0, expiresAt = 100\<rparr>]
     = (Inr ''from cache'',
        [''comments:v1'' \<mapsto> \<lparr>data = ''from cache'', timestamp = 0, expiresAt = 100\<rparr>], [])
   \<and> getAlerts (\<lambda>url. Inr ''from network'' :: unit + string) 50 60
      (Some \<lparr>unreadOnly = Some False, alertType = None, severity = None,
             AlertFilters.limit = None\<rparr>) False
      [''alerts:all'' \<mapsto> \<lparr>data = ''from cache'', timestamp = 0, expiresAt = 100\<rparr>]
     = (Inr ''from cache'',
        [''alerts:all'' \<mapsto> \<lparr>data = ''from cache'', timestamp = 0, expiresAt = 100\<rparr>], [])"
  by (simp add: getVideoComments_def getVideoComments_params_def getAlerts_def
      getAlerts_params_def append_string_def append_number_def append_defined_def
      truthy_boolean_def VIDEO_COMMENTS_def DataCache_get_def Let_def)


section \<open>Properties of the API client\<close>

lemma getAuthHeaders_signed_in:
  "snd (getAuthHeaders (Some (Inr tok)) now tokenCache) =
     (if (case tokenCache of None \<Rightarrow> False | Some tc \<Rightarrow> token_expiresAt tc > now)
      then tokenCache
      else Some \<lparr>token = tok, token_expiresAt = now + 55 * 60 * 1000\<rparr>)"
  by (simp add: getAuthHeaders_def Let_def split: option.splits)

lemma getAuthHeaders_headers:
  "\<exists>hdrs. fst (getAuthHeaders (Some (Inr tok)) now tokenCache) = Inr hdrs"
  by (simp add: getAuthHeaders_def Let_def split: option.splits)

lemma apiFetch_response:
  "apiFetch API_URL (Some (Inr tok)) now (\<lambda>req. Inr response) endpoint opts tokenCache =
     (if \<not> ok response then Inl (error_of_response response)
      else case body response of None \<Rightarrow> Inl (Rejected ''response.json()'')
           | Some parsed \<Rightarrow> Inr parsed,
      if \<not> ok response \<and> status response = 401 then None
      else snd (getAuthHeaders (Some (Inr tok)) now tokenCache))"
proof -
  obtain hdrs tc where g: "getAuthHeaders (Some (Inr tok)) now tokenCache = (Inr hdrs, tc)"
    using getAuthHeaders_headers [of tok now tokenCache]
    by (cases "getAuthHeaders (Some (Inr tok)) now tokenCache") auto
  then have s: "snd (getAuthHeaders (Some (Inr tok)) now tokenCache) = tc" by simp
  show ?thesis
    unfolding s by (simp add: apiFetch_def g clearTokenCache_def split: option.splits)
qed

lemma status_401_not_ok: "status response = 401 \<Longrightarrow> \<not> ok response"
  by (simp add: ok_def)

lemma error_of_response_unparseable:
  "body response = None \<Longrightarrow> error_of_response response = Error (Text ''An error occurred'')"
  by (simp add: error_of_response_def detail_def truthy_def message_of_def Let_def)

lemma error_of_response_detail:
  "body response = Some (JObject members) \<Longrightarrow> map_of (rev members) ''detail'' = Some d \<Longrightarrow>
   truthy d \<Longrightarrow> error_of_response response = Error (message_of d)"
  by (simp add: error_of_response_def detail_def Let_def)

lemma error_of_response_string_detail:
  "body response = Some (JObject members) \<Longrightarrow>
   map_of (rev members) ''detail'' = Some (JString s) \<Longrightarrow> s \<noteq> [] \<Longrightarrow>
   error_of_response response = Error (Text s)"
  by (simp add: error_of_response_def detail_def truthy_def message_of_def Let_def)

lemma error_of_response_no_detail:
  "body response = Some parsed \<Longrightarrow> parsed \<noteq> JNull \<Longrightarrow>
   (case parsed of
      JObject members \<Rightarrow>
        (case map_of (rev members) ''detail'' of None \<Rightarrow> True | Some v \<Rightarrow> \<not> truthy v)
    | _ \<Rightarrow> True) \<Longrightarrow>
   error_of_response response = Error (Text (''HTTP '' @ string_of_nat (status response)))"
  by (cases parsed) (simp_all add: error_of_response_def detail_def Let_def split: option.splits)

lemma apiFetch_no_json:
  "ok response \<Longrightarrow> body response = None \<Longrightarrow>
   fst (apiFetch API_URL (Some (Inr tok)) now (\<lambda>req. Inr response) endpoint opts tokenCache)
     = Inl (Rejected ''response.json()'')"
  by (simp add: apiFetch_response)

lemma error_of_response_null:
  "body response = Some JNull \<Longrightarrow> error_of_response response = TypeError"
  by (simp add: error_of_response_def detail_def Let_def)

lemma apiFetch_not_signed_in:
  "apiFetch API_URL None now fetch endpoint opts tokenCache =
     (Inl (Error (Text ''User not authenticated'')), tokenCache)"
  by (simp add: apiFetch_def getAuthHeaders_def)

lemma http_403: "string_of_nat 403 = ''403''"
  by code_simp

lemma http_500: "string_of_nat 500 = ''500''"
  by code_simp

text \<open>
  Claim C9, as the code has it. With a signed-in user whose token is available and a
  fetch that completes with \<open>response\<close>: \<^verbatim>\<open>apiFetch\<close> returns the parsed body exactly when
  the response is ok and its body parses as JSON; an ok response whose body does not
  parse makes the call reject, and every non-ok response makes it throw. What a non-ok
  response throws is decided by its body. A body that does not parse gives an error with
  message \<^verbatim>\<open>An error occurred\<close>. A body that is JSON \<^verbatim>\<open>null\<close> gives the \<^verbatim>\<open>TypeError\<close> of
  reading \<^verbatim>\<open>detail\<close> of \<^verbatim>\<open>null\<close>. A body that is an object with a truthy \<^verbatim>\<open>detail\<close> gives
  an error whose message is that \<^verbatim>\<open>detail\<close>: the string itself when it is a non-empty
  string, its string conversion otherwise. Every other body (a value that is neither
  \<^verbatim>\<open>null\<close> nor an object, an object with no \<^verbatim>\<open>detail\<close> or with a falsy one) gives an error
  with message \<^verbatim>\<open>HTTP <status>\<close>. The token cache is cleared exactly when the status is
  401; after any other response it is what \<^verbatim>\<open>getAuthHeaders\<close> left at the start of the
  call: the cache as it was when it held an unexpired token, otherwise the fresh token
  with expiry 55 minutes after \<open>now\<close>. With nobody signed in the call throws
  \<^verbatim>\<open>User not authenticated\<close> and leaves the cache alone.
\<close>

theorem apiFetch_outcomes:
  "(fst (apiFetch API_URL (Some (Inr tok)) now (\<lambda>req. Inr response) endpoint opts tokenCache)
       = Inr result
     \<longleftrightarrow> ok response \<and> body response = Some result)
   \<and> (ok response \<longrightarrow> body response = None \<longrightarrow>
        fst (apiFetch API_URL (Some (Inr tok)) now (\<lambda>req. Inr response) endpoint opts tokenCache)
          = Inl (Rejected ''response.json()''))
   \<and> (\<not> ok response \<longrightarrow>
        fst (apiFetch API_URL (Some (Inr tok)) now (\<lambda>req. Inr response) endpoint opts tokenCache)
          = Inl (error_of_response response))
   \<and> (body response = None \<longrightarrow>
        error_of_response response = Error (Text ''An error occurred''))
   \<and> (body response = Some JNull \<longrightarrow> error_of_response response = TypeError)
   \<and> (body response = Some (JObject members) \<longrightarrow> map_of (rev members) ''detail'' = Some d \<longrightarrow>
        truthy d \<longrightarrow> error_of_response response = Error (message_of d))
   \<and> (body response = Some (JObject members) \<longrightarrow>
        map_of (rev members) ''detail'' = Some (JString s) \<longrightarrow> s \<noteq> [] \<longrightarrow>
        error_of_response response = Error (Text s))
   \<and> (body response = Some parsed \<longrightarrow> parsed \<noteq> JNull \<longrightarrow>
        (case parsed of
           JObject ms \<Rightarrow>
             (case map_of (rev ms) ''detail'' of None \<Rightarrow> True | Some v \<Rightarrow> \<not> truthy v)
         | _ \<Rightarrow> True) \<longrightarrow>
        error_of_response response = Error (Text (''HTTP '' @ string_of_nat (status response))))
   \<and> snd (apiFetch API_URL (Some (Inr tok)) now (\<lambda>req. Inr response) endpoint opts tokenCache)
     = (if status response = 401 then None
        else if (case tokenCache of None \<Rightarrow> False | Some tc \<Rightarrow> token_expiresAt tc > now)
             then tokenCache
             else Some \<lparr>token = tok, token_expiresAt = now + 55 * 60 * 1000\<rparr>)
   \<and> apiFetch API_URL None now fetch endpoint opts tokenCache
     = (Inl (Error (Text ''User not authenticated'')), tokenCache)"
proof (intro conjI impI)
  show "fst (apiFetch API_URL (Some (Inr tok)) now (\<lambda>req. Inr response) endpoint opts tokenCache)
       = Inr result
     \<longleftrightarrow> ok response \<and> body response = Some result"
    by (simp add: apiFetch_response split: option.splits)
next
  assume "ok response" "body response = None"
  then show "fst (apiFetch API_URL (Some (Inr tok)) now (\<lambda>req. Inr response) endpoint opts
      tokenCache) = Inl (Rejected ''response.json()'')"
    by (rule apiFetch_no_json)
next
  assume "\<not> ok response"
  then show "fst (apiFetch API_URL (Some (Inr tok)) now (\<lambda>req. Inr response) endpoint opts
      tokenCache) = Inl (error_of_response response)"
    by (simp add: apiFetch_response)
next
  assume "body response = None"
  then show "error_of_response response = Error (Text ''An error occurred'')"
    by (rule error_of_response_unparseable)
next
  assume "body response = Some JNull"
  then show "error_of_response response = TypeError"
    by (rule error_of_response_null)
next
  assume "body response = Some (JObject members)" "map_of (rev members) ''detail'' = Some d"
    "truthy d"
  then show "error_of_response response = Error (message_of d)"
    by (rule error_of_response_detail)
next
  assume "body response = Some (JObject members)"
    "map_of (rev members) ''detail'' = Some (JString s)" "s \<noteq> []"
  then show "error_of_response response = Error (Text s)"
    by (rule error_of_response_string_detail)
next
  assume "body response = Some parsed" "parsed \<noteq> JNull"
    "case parsed of
       JObject ms \<Rightarrow>
         (case map_of (rev ms) ''detail'' of None \<Rightarrow> True | Some v \<Rightarrow> \<not> truthy v)
     | _ \<Rightarrow> True"
  then show "error_of_response response
      = Error (Text (''HTTP '' @ string_of_nat (status response)))"
    by (rule error_of_response_no_detail)
next
  show "snd (apiFetch API_URL (Some (Inr tok)) now (\<lambda>req. Inr response) endpoint opts tokenCache)
     = (if status response = 401 then None
        else if (case tokenCache of None \<Rightarrow> False | Some tc \<Rightarrow> token_expiresAt tc > now)
             then tokenCache
             else Some \<lparr>token = tok, token_expiresAt = now + 55 * 60 * 1000\<rparr>)"
    using status_401_not_ok [of response]
    by (simp add: apiFetch_response getAuthHeaders_signed_in)
next
  show "apiFetch API_URL None now fetch endpoint opts tokenCache
     = (Inl (Error (Text ''User not authenticated'')), tokenCache)"
    by (rule apiFetch_not_signed_in)
qed

theorem apiFetch_outcomes_witness:
  "\<not> ok \<lparr>status = 403, body = Some (JObject [(''detail'', JString ''Not allowed'')])\<rparr>
   \<and> truthy (JString ''Not allowed'')
   \<and> apiFetch ''http://localhost:8000'' (Some (Inr ''tok'')) 1000
        (\<lambda>req. Inr \<lparr>status = 403, body = Some (JObject [(''detail'', JString ''Not allowed'')])\<rparr>)
        ''/api/videos/analyze'' () (Some \<lparr>token = ''old'', token_expiresAt = 2000\<rparr>)
       = (Inl (Error (Text ''Not allowed'')), Some \<lparr>token = ''old'', token_expiresAt = 2000\<rparr>)
   \<and> truthy (JNumber 42)
   \<and> error_of_response \<lparr>status = 422, body = Some (JObject [(''detail'', JNumber 42)])\<rparr>
       = Error (ToString (JNumber 42))
   \<and> error_of_response \<lparr>status = 500, body = Some (JObject [])\<rparr> = Error (Text ''HTTP 500'')
   \<and> error_of_response \<lparr>status = 500, body = Some (JArray [])\<rparr> = Error (Text ''HTTP 500'')
   \<and> \<not> truthy (JBool False)
   \<and> error_of_response \<lparr>status = 500, body = Some (JObject [(''detail'', JBool False)])\<rparr>
       = Error (Text ''HTTP 500'')
   \<and> error_of_response \<lparr>status = 500, body = Some JNull\<rparr> = TypeError
   \<and> error_of_response \<lparr>status = 500, body = None\<rparr> = Error (Text ''An error occurred'')
   \<and> ok \<lparr>status = 204, body = None\<rparr>
   \<and> fst (apiFetch ''http://localhost:8000'' (Some (Inr ''tok'')) 1000
        (\<lambda>req. Inr \<lparr>status = 204, body = None\<rparr>) ''/api/alerts/a1'' ()
        (Some \<lparr>token = ''old'', token_expiresAt = 2000\<rparr>))
       = Inl (Rejected ''response.json()'')"
proof -
  let ?r = "\<lparr>status = 403, body = Some (JObject [(''detail'', JString ''Not allowed'')])\<rparr>"
  let ?tc = "Some \<lparr>token = ''old'', token_expiresAt = 2000\<rparr>"
  have h1: "\<not> ok ?r" by (simp add: ok_def)
  have h2: "truthy (JString ''Not allowed'')" by (simp add: truthy_def)
  have h3: "body ?r = Some (JObject [(''detail'', JString ''Not allowed'')])" by simp
  have h4: "map_of (rev [(''detail'', JString ''Not allowed'')]) ''detail''
      = Some (JString ''Not allowed'')" by simp
  have h5: "''Not allowed'' \<noteq> []" by simp
  note t = apiFetch_outcomes [where API_URL = "''http://localhost:8000''" and tok = "''tok''"
      and now = 1000 and response = ?r and endpoint = "''/api/videos/analyze''" and opts = "()"
      and tokenCache = ?tc and members = "[(''detail'', JString ''Not allowed'')]"
      and d = "JString ''Not allowed''" and result = JNull and parsed = JNull
      and s = "''Not allowed''" and fetch = "\<lambda>req. Inl TypeError"]
  from t h1 have a: "fst (apiFetch ''http://localhost:8000'' (Some (Inr ''tok'')) 1000
      (\<lambda>req. Inr ?r) ''/api/videos/analyze'' () ?tc) = Inl (error_of_response ?r)"
    by blast
  from t h3 h4 h5 have b: "error_of_response ?r = Error (Text ''Not allowed'')"
    by blast
  from t have c: "snd (apiFetch ''http://localhost:8000'' (Some (Inr ''tok'')) 1000
      (\<lambda>req. Inr ?r) ''/api/videos/analyze'' () ?tc) = ?tc"
    by simp
  from a b c have g: "apiFetch ''http://localhost:8000'' (Some (Inr ''tok'')) 1000
      (\<lambda>req. Inr ?r) ''/api/videos/analyze'' () ?tc = (Inl (Error (Text ''Not allowed'')), ?tc)"
    by (simp add: prod_eq_iff)
  have n1: "truthy (JNumber 42)" by (simp add: truthy_def)
  have n2: "error_of_response \<lparr>status = 422, body = Some (JObject [(''detail'', JNumber 42)])\<rparr>
      = Error (ToString (JNumber 42))"
    using apiFetch_outcomes [where
        response = "\<lparr>status = 422, body = Some (JObject [(''detail'', JNumber 42)])\<rparr>"
        and parsed = JNull and API_URL = "[]" and tok = "[]" and now = 0
        and endpoint = "[]" and opts = "()" and tokenCache = None and result = JNull
        and fetch = "\<lambda>req. Inl TypeError" and members = "[(''detail'', JNumber 42)]"
        and d = "JNumber 42" and s = "[]"] n1
    by (simp add: message_of_def)
  have e1: "error_of_response \<lparr>status = 500, body = Some (JObject [])\<rparr> = Error (Text ''HTTP 500'')"
    using apiFetch_outcomes [where response = "\<lparr>status = 500, body = Some (JObject [])\<rparr>"
        and parsed = "JObject []" and API_URL = "[]" and tok = "[]" and now = 0
        and endpoint = "[]" and opts = "()" and tokenCache = None and result = JNull
        and fetch = "\<lambda>req. Inl TypeError" and members = "[]" and d = JNull and s = "[]"]
    by (simp add: http_500)
  have e2: "error_of_response \<lparr>status = 500, body = Some (JArray [])\<rparr> = Error (Text ''HTTP 500'')"
    using apiFetch_outcomes [where response = "\<lparr>status = 500, body = Some (JArray [])\<rparr>"
        and parsed = "JArray []" and API_URL = "[]" and tok = "[]" and now = 0
        and endpoint = "[]" and opts = "()" and tokenCache = None and result = JNull
        and fetch = "\<lambda>req. Inl TypeError" and members = "[]" and d = JNull and s = "[]"]
    by (simp add: http_500)
  have f1: "\<not> truthy (JBool False)" by (simp add: truthy_def)
  have e3: "error_of_response \<lparr>status = 500, body = Some (JObject [(''detail'', JBool False)])\<rparr>
      = Error (Text ''HTTP 500'')"
    using apiFetch_outcomes [where
        response = "\<lparr>status = 500, body = Some (JObject [(''detail'', JBool False)])\<rparr>"
        and parsed = "JObject [(''detail'', JBool False)]" and API_URL = "[]" and tok = "[]"
        and now = 0 and endpoint = "[]" and opts = "()" and tokenCache = None and result = JNull
        and fetch = "\<lambda>req. Inl TypeError" and members = "[]" and d = JNull and s = "[]"] f1
    by (simp add: http_500)
  have e4: "error_of_response \<lparr>status = 500, body = Some JNull\<rparr> = TypeError"
    using apiFetch_outcomes [where response = "\<lparr>status = 500, body = Some JNull\<rparr>"
        and parsed = JNull and API_URL = "[]" and tok = "[]" and now = 0
        and endpoint = "[]" and opts = "()" and tokenCache = None and result = JNull
        and fetch = "\<lambda>req. Inl TypeError" and members = "[]" and d = JNull and s = "[]"]
    by simp
  have e5: "error_of_response \<lparr>status = 500, body = None\<rparr> = Error (Text ''An error occurred'')"
    using apiFetch_outcomes [where response = "\<lparr>status = 500, body = None\<rparr>"
        and parsed = JNull and API_URL = "[]" and tok = "[]" and now = 0
        and endpoint = "[]" and opts = "()" and tokenCache = None and result = JNull
        and fetch = "\<lambda>req. Inl TypeError" and members = "[]" and d = JNull and s = "[]"]
    by simp
  have k1: "ok \<lparr>status = 204, body = None\<rparr>" by (simp add: ok_def)
  have k2: "fst (apiFetch ''http://localhost:8000'' (Some (Inr ''tok'')) 1000
      (\<lambda>req. Inr \<lparr>status = 204, body = None\<rparr>) ''/api/alerts/a1'' () ?tc)
      = Inl (Rejected ''response.json()'')"
    using apiFetch_outcomes [where response = "\<lparr>status = 204, body = None\<rparr>"
        and parsed = JNull and API_URL = "''http://localhost:8000''" and tok = "''tok''"
        and now = 1000 and endpoint = "''/api/alerts/a1''" and opts = "()" and tokenCache = ?tc
        and result = JNull and fetch = "\<lambda>req. Inl TypeError" and members = "[]" and d = JNull
        and s = "[]"] k1
    by simp
  from h1 h2 g n1 n2 e1 e2 f1 e3 e4 e5 k1 k2 show ?thesis by blast
qed

text \<open>
  The claim as written lets only a 401 touch the token cache, takes every \<^verbatim>\<open>detail\<close> in
  the body as the message, has every other non-ok response throw \<^verbatim>\<open>HTTP <status>\<close>, and
  has every ok response return. A successful call that starts with an empty token cache
  leaves a fresh token in it; a 403 whose \<^verbatim>\<open>detail\<close> is the empty string is reported as
  \<^verbatim>\<open>HTTP 403\<close>; a 500 whose body is JSON \<^verbatim>\<open>null\<close> throws a \<^verbatim>\<open>TypeError\<close>; an ok response
  with no JSON body (a 204) makes the call reject.
\<close>

theorem apiFetch_refreshes_token_cache:
  "apiFetch ''http://localhost:8000'' (Some (Inr ''tok'')) 1000
      (\<lambda>req. Inr \<lparr>status = 200, body = Some (JObject [])\<rparr>) ''/api/videos'' () None
     = (Inr (JObject []), Some \<lparr>token = ''tok'', token_expiresAt = 3301000\<rparr>)
   \<and> apiFetch ''http://localhost:8000'' (Some (Inr ''tok'')) 1000
      (\<lambda>req. Inr \<lparr>status = 403, body = Some (JObject [(''detail'', JString [])])\<rparr>)
      ''/api/videos'' () (Some \<lparr>token = ''old'', token_expiresAt = 2000\<rparr>)
     = (Inl (Error (Text ''HTTP 403'')), Some \<lparr>token = ''old'', token_expiresAt = 2000\<rparr>)
   \<and> apiFetch ''http://localhost:8000'' (Some (Inr ''tok'')) 1000
      (\<lambda>req. Inr \<lparr>status = 500, body = Some JNull\<rparr>)
      ''/api/videos'' () (Some \<lparr>token = ''old'', token_expiresAt = 2000\<rparr>)
     = (Inl TypeError, Some \<lparr>token = ''old'', token_expiresAt = 2000\<rparr>)
   \<and> apiFetch ''http://localhost:8000'' (Some (Inr ''tok'')) 1000
      (\<lambda>req. Inr \<lparr>status = 204, body = None\<rparr>)
      ''/api/alerts/a1'' () (Some \<lparr>token = ''old'', token_expiresAt = 2000\<rparr>)
     = (Inl (Rejected ''response.json()''), Some \<lparr>token = ''old'', token_expiresAt = 2000\<rparr>)"
  by (simp add: apiFetch_def getAuthHeaders_def ok_def error_of_response_def detail_def
      truthy_def http_403 Let_def)

section \<open>Properties of the rate limiter's key\<close>

lemma get_user_identifier_by_identity:
  "get_user_identifier request =
     (case attached_userId request of
        Some uid \<Rightarrow> ''user:'' @ uid
      | None \<Rightarrow> ''ip:'' @ remote_address request)"
proof (cases "state_user request")
  case (Dict user)
  show ?thesis
  proof (cases "map_of user ''userId''")
    case None
    with Dict show ?thesis
      by (simp add: get_user_identifier_def attached_userId_def dict_get_def py_truthy_def)
  next
    case (Some v)
    then have "user \<noteq> []" by auto
    with Dict Some show ?thesis
      by (cases v)
         (simp_all add: get_user_identifier_def attached_userId_def dict_get_def py_truthy_def
            py_str_def)
  qed
qed (simp_all add: get_user_identifier_def attached_userId_def)

text \<open>
  Claim C7. The limiter's key function is \<^verbatim>\<open>get_user_identifier\<close>: for a request with an
  attached user that carries a (non-empty) \<^verbatim>\<open>userId\<close> the counter key is \<^verbatim>\<open>user:<userId>\<close>,
  for every other request it is \<^verbatim>\<open>ip:<address>\<close>; a user key is never an address key; and
  the limiter is configured with the fixed-window strategy.
\<close>

theorem limiter_key_by_identity:
  "key_func limiter request =
     (case attached_userId request of
        Some uid \<Rightarrow> ''user:'' @ uid
      | None \<Rightarrow> ''ip:'' @ remote_address request)
   \<and> ''user:'' @ uid \<noteq> ''ip:'' @ address
   \<and> strategy limiter = ''fixed-window''"
  by (simp add: limiter_def get_user_identifier_by_identity)


section \<open>Properties of the submission flow\<close>


lemma handleAnalyze_navigated:
  "navigated (handleAnalyze patterns validateVideoUrl analyzeVideo st) = Some target \<longleftrightarrow>
     \<not> blank (videoUrl st) \<and> fst (validateYouTubeUrl patterns (videoUrl st))
     \<and> (\<exists>videoData response.
           validateVideoUrl (videoUrl st) = Inr videoData
           \<and> analyzeVideo (videoUrl st) = Inr response
           \<and> target = ''/analyzing?jobId='' @ jobId response)"
  by (cases "validateYouTubeUrl patterns (videoUrl st)")
     (auto simp: handleAnalyze_def Let_def split: sum.splits bool.splits)

lemma handleAnalyze_rejected:
  assumes "\<not> blank (videoUrl st)" "fst (validateYouTubeUrl patterns (videoUrl st))"
    "validateVideoUrl (videoUrl st) = Inr videoData" "analyzeVideo (videoUrl st) = Inl msg"
  shows "handleAnalyze patterns validateVideoUrl analyzeVideo st =
     \<lparr>state = st\<lparr>urlError := fst (on_analysis_error msg),
                   isValidating := False, isAnalyzing := False\<rparr>,
      toasts = ToastSuccess (''Video found: '' @ title videoData) # snd (on_analysis_error msg),
      navigated = None\<rparr>"
  using assms
  by (cases "validateYouTubeUrl patterns (videoUrl st)")
     (simp add: handleAnalyze_def Let_def)

lemma on_analysis_error_limit:
  "str_includes msg ''403'' \<or> str_includes msg ''limit'' \<Longrightarrow>
   on_analysis_error msg = (''Plan limit reached. Upgrade to continue.'', [ToastError plan_limit_toast])"
  by (simp add: on_analysis_error_def)

lemma on_analysis_error_other:
  "\<not> (str_includes msg ''403'' \<or> str_includes msg ''limit'') \<Longrightarrow>
   ToastError plan_limit_toast \<notin> set (snd (on_analysis_error msg))
   \<and> (fst (on_analysis_error msg) = ''Plan limit reached. Upgrade to continue.''
        \<longrightarrow> msg = ''Plan limit reached. Upgrade to continue.'')"
  by (simp add: on_analysis_error_def plan_limit_toast_def)

lemma handleAnalyze_no_navigation:
  assumes "analyzeVideo (videoUrl st) = Inl msg"
  shows "navigated (handleAnalyze patterns validateVideoUrl analyzeVideo st) = None"
proof (cases "navigated (handleAnalyze patterns validateVideoUrl analyzeVideo st)")
  case (Some target)
  with assms show ?thesis by (simp add: handleAnalyze_navigated)
qed simp


section \<open>Properties of sync jobs and of the progress page\<close>

lemma fetch_progress_lower: "10 \<le> fetch_progress processed n"
  by (simp add: fetch_progress_def)

lemma fetch_progress_upper: "fetch_progress processed n \<le> 70"
proof (cases "n = 0")
  case True
  then show ?thesis by (simp add: fetch_progress_def)
next
  case False
  have "60 * min processed n \<le> 60 * n" by simp
  then have "(60 * min processed n) div n \<le> (60 * n) div n" by (rule div_le_mono)
  with False show ?thesis by (simp add: fetch_progress_def)
qed

lemma fetch_progress_mono:
  "processed \<le> processed' \<Longrightarrow> fetch_progress processed n \<le> fetch_progress processed' n"
  by (auto simp: fetch_progress_def intro!: div_le_mono)

lemma fetch_progress_proportional:
  "0 < n \<Longrightarrow> processed \<le> n \<Longrightarrow> fetch_progress processed n = 10 + (60 * processed) div n"
  by (simp add: fetch_progress_def min_def)

lemma job_inv_submit: "job_inv (submit n)"
  by (simp add: job_inv_def submit_def)

lemma job_inv_orchestrate: "job_inv job \<Longrightarrow> job_inv (orchestrate e job)"
  using fetch_progress_upper [of "commentsProcessed job" "commentsTotal job"]
  by (cases e; cases "sync_state job")
     (auto simp: job_inv_def fetch_progress_def)

lemma job_inv_foldl: "job_inv job \<Longrightarrow> job_inv (foldl (\<lambda>j e. orchestrate e j) job events)"
  by (induction events arbitrary: job) (simp_all add: job_inv_orchestrate)

lemma job_inv_run: "job_inv (run events (submit n))"
  by (simp add: run_def job_inv_foldl job_inv_submit)

lemma progress_orchestrate_mono:
  "job_inv job \<Longrightarrow> progressPercent job \<le> progressPercent (orchestrate e job)"
  using fetch_progress_upper [of "commentsProcessed job" "commentsTotal job"]
    fetch_progress_mono [of "commentsProcessed job" _ "commentsTotal job"]
  by (cases e; cases "sync_state job") (auto simp: job_inv_def)

lemma progress_foldl_mono:
  "job_inv job \<Longrightarrow>
   progressPercent job \<le> progressPercent (foldl (\<lambda>j e. orchestrate e j) job events)"
proof (induction events arbitrary: job)
  case Nil
  then show ?case by simp
next
  case (Cons e events)
  from Cons.prems have "progressPercent job \<le> progressPercent (orchestrate e job)"
    by (rule progress_orchestrate_mono)
  moreover from Cons.prems have "job_inv (orchestrate e job)"
    by (rule job_inv_orchestrate)
  then have "progressPercent (orchestrate e job)
      \<le> progressPercent (foldl (\<lambda>j e. orchestrate e j) (orchestrate e job) events)"
    by (rule Cons.IH)
  ultimately show ?case by simp
qed

lemma run_append: "run (events @ later) job = run later (run events job)"
  by (simp add: run_def)

lemma complete_iff_100:
  "job_inv job \<Longrightarrow> progressPercent job = 100 \<longleftrightarrow> sync_state job = Completed"
  using fetch_progress_upper [of "commentsProcessed job" "commentsTotal job"]
  by (cases "sync_state job") (auto simp: job_inv_def)



lemma length_set_status: "length (set_status i s steps) = length steps"
  by (simp add: set_status_def)

lemma length_set_progress: "length (set_progress i p steps) = length steps"
  by (simp add: set_progress_def)

lemma status_set_status:
  "i < length steps \<Longrightarrow>
   step_status (set_status i s steps ! k) = (if k = i then s else step_status (steps ! k))"
  by (simp add: set_status_def nth_list_update)

lemma status_set_progress:
  "i < length steps \<Longrightarrow> step_status (set_progress i p steps ! k) = step_status (steps ! k)"
  by (simp add: set_progress_def nth_list_update)

lemma download_step:
  assumes "length steps = 6"
  shows "step_status (updateSteps p processed n steps ! 2) =
     (if 70 \<le> p then step_completed else if 15 \<le> p then inProgress
      else step_status (steps ! 2))"
  using assms
  by (simp add: updateSteps_def Let_def on_condition_def status_set_status status_set_progress
      length_set_status length_set_progress)

lemma analysis_step:
  assumes "length steps = 6"
  shows "step_status (updateSteps p processed n steps ! 3) =
     (if 85 \<le> p then step_completed else if 75 \<le> p then inProgress
      else step_status (steps ! 3))"
  using assms
  by (simp add: updateSteps_def Let_def on_condition_def status_set_status status_set_progress
      length_set_status length_set_progress)

lemma metadata_step:
  assumes "length steps = 6"
  shows "step_status (updateSteps p processed n steps ! 1) =
     (if 10 \<le> p then step_completed else step_status (steps ! 1))"
  using assms
  by (simp add: updateSteps_def Let_def on_condition_def status_set_status status_set_progress
      length_set_status length_set_progress)

lemma initial_steps_pending:
  "length initial_steps = 6" "step_status (initial_steps ! 1) = pending"
  "step_status (initial_steps ! 2) = pending" "step_status (initial_steps ! 3) = pending"
  by (simp_all add: initial_steps_def)


lemma pollStatus_shows:
  "page_progress (pollStatus (Inr jobStatus) page) = progress jobStatus
   \<and> page_status (pollStatus (Inr jobStatus) page) = job_status jobStatus"
  by (simp add: pollStatus_def Let_def)




lemma commentsTotal_orchestrate: "commentsTotal (orchestrate e job) = commentsTotal job"
  by (cases e) simp_all

lemma commentsTotal_foldl:
  "commentsTotal (foldl (\<lambda>j e. orchestrate e j) job events) = commentsTotal job"
  by (induction events arbitrary: job) (simp_all add: commentsTotal_orchestrate)

lemma commentsTotal_run: "commentsTotal (run events (submit n)) = n"
  by (simp add: run_def commentsTotal_foldl submit_def)











text \<open>
  Claim C2. For every sync job and every sequence of events from its creation onward,
  \<^verbatim>\<open>progressPercent\<close> after more events is at least what it was before them, it never
  exceeds 100, and it equals 100 exactly when the job is Completed. What the progress
  page shows after polling the job is this value, and the status it is served is
  \<^verbatim>\<open>completed\<close> exactly at 100.
\<close>

theorem progress_monotone_complete_at_100:
  "progressPercent (run events (submit n)) \<le> progressPercent (run (events @ later) (submit n))
   \<and> progressPercent (run events (submit n)) \<le> 100
   \<and> (progressPercent (run events (submit n)) = 100
        \<longleftrightarrow> sync_state (run events (submit n)) = Completed)
   \<and> page_progress (pollStatus (Inr (observe ids (run events (submit n)))) page)
        = int (progressPercent (run events (submit n)))
   \<and> (job_status (observe ids (run events (submit n))) = completed
        \<longleftrightarrow> progressPercent (run events (submit n)) = 100)"
proof (intro conjI)
  have inv: "job_inv (run events (submit n))" by (rule job_inv_run)
  from inv show "progressPercent (run events (submit n))
      \<le> progressPercent (run (events @ later) (submit n))"
    by (simp add: run_append) (simp add: run_def progress_foldl_mono)
  from inv show c: "progressPercent (run events (submit n)) = 100
      \<longleftrightarrow> sync_state (run events (submit n)) = Completed"
    by (rule complete_iff_100)
  from inv show "progressPercent (run events (submit n)) \<le> 100"
    using fetch_progress_upper [of "commentsProcessed (run events (submit n))"
        "commentsTotal (run events (submit n))"]
    by (cases "sync_state (run events (submit n))") (auto simp: job_inv_def)
  show "page_progress (pollStatus (Inr (observe ids (run events (submit n)))) page)
      = int (progressPercent (run events (submit n)))"
    by (simp add: pollStatus_shows observe_def)
  show "job_status (observe ids (run events (submit n))) = completed
      \<longleftrightarrow> progressPercent (run events (submit n)) = 100"
    unfolding c by (cases "sync_state (run events (submit n))") (simp_all add: observe_def)
qed

theorem progress_monotone_complete_at_100_witness:
  "progressPercent (run [Pickup, PageFetched 5] (submit 10)) = 40
   \<and> progressPercent (run ([Pickup, PageFetched 5] @ [PageFetched 5, NoMorePages]) (submit 10)) = 70
   \<and> sync_state (run [Pickup, PageFetched 5] (submit 10)) \<noteq> Completed
   \<and> progressPercent (run [Pickup, NoMorePages, AllAnalyzed, Finalized] (submit 10)) = 100
   \<and> sync_state (run [Pickup, NoMorePages, AllAnalyzed, Finalized] (submit 10)) = Completed"
proof -
  have a: "progressPercent (run [Pickup, PageFetched 5] (submit 10)) = 40"
    by (simp add: run_def submit_def fetch_progress_def)
  have b: "progressPercent (run ([Pickup, PageFetched 5] @ [PageFetched 5, NoMorePages])
      (submit 10)) = 70"
    by (simp add: run_def submit_def fetch_progress_def)
  from a progress_monotone_complete_at_100 [of "[Pickup, PageFetched 5]" 10]
  have c: "sync_state (run [Pickup, PageFetched 5] (submit 10)) \<noteq> Completed" by simp
  have d: "progressPercent (run [Pickup, NoMorePages, AllAnalyzed, Finalized] (submit 10)) = 100"
    by (simp add: run_def submit_def)
  from d progress_monotone_complete_at_100 [of "[Pickup, NoMorePages, AllAnalyzed, Finalized]" 10]
  have e: "sync_state (run [Pickup, NoMorePages, AllAnalyzed, Finalized] (submit 10)) = Completed"
    by simp
  from a b c d e show ?thesis by blast
qed

text \<open>
  Claim C6. Picking up a queued job puts it in Fetching with \<^verbatim>\<open>progressPercent\<close> 10.
  While a job is fetching, its progress is within 10 to 70 and is the proportional value
  10 + 60 * processed / total (for a total that is positive and not exceeded). A job past
  fetching (Analyzing, Finalizing, Completed) has progress 70 or above. The progress page
  reads the same bounds: from its initial steps, the step \<^verbatim>\<open>Fetched video metadata\<close> is
  completed from progress 10 on, \<^verbatim>\<open>Downloading comments\<close> is in progress only for progress
  within 15 to below 70 and completed exactly from 70 on, and \<^verbatim>\<open>AI analyzing sentiment\<close>
  begins only at 75.
\<close>

theorem fetching_progress_range:
  "(sync_state job = Queued \<longrightarrow>
      orchestrate Pickup job = job\<lparr>sync_state := Fetching, progressPercent := 10\<rparr>)
   \<and> (sync_state (run events (submit n)) = Fetching \<longrightarrow>
        10 \<le> progressPercent (run events (submit n))
        \<and> progressPercent (run events (submit n)) \<le> 70
        \<and> progressPercent (run events (submit n))
            = fetch_progress (commentsProcessed (run events (submit n))) n)
   \<and> (0 < n \<longrightarrow> processed \<le> n \<longrightarrow> fetch_progress processed n = 10 + (60 * processed) div n)
   \<and> (sync_state (run events (submit n)) \<in> {Analyzing, Finalizing, Completed} \<longrightarrow>
        70 \<le> progressPercent (run events (submit n)))
   \<and> step_status (updateSteps p k m initial_steps ! 1)
        = (if 10 \<le> p then step_completed else pending)
   \<and> step_status (updateSteps p k m initial_steps ! 2)
        = (if 70 \<le> p then step_completed else if 15 \<le> p then inProgress else pending)
   \<and> (step_status (updateSteps p k m initial_steps ! 3) \<noteq> pending \<longleftrightarrow> 75 \<le> p)"
proof (intro conjI impI)
  assume "sync_state job = Queued"
  then show "orchestrate Pickup job = job\<lparr>sync_state := Fetching, progressPercent := 10\<rparr>"
    by simp
next
  assume f: "sync_state (run events (submit n)) = Fetching"
  have inv: "job_inv (run events (submit n))" by (rule job_inv_run)
  with f show eq: "progressPercent (run events (submit n))
      = fetch_progress (commentsProcessed (run events (submit n))) n"
    by (simp add: job_inv_def commentsTotal_run)
  show "10 \<le> progressPercent (run events (submit n))"
    unfolding eq by (rule fetch_progress_lower)
  show "progressPercent (run events (submit n)) \<le> 70"
    unfolding eq by (rule fetch_progress_upper)
next
  assume "0 < n" "processed \<le> n"
  then show "fetch_progress processed n = 10 + (60 * processed) div n"
    by (rule fetch_progress_proportional)
next
  assume a: "sync_state (run events (submit n)) \<in> {Analyzing, Finalizing, Completed}"
  have inv: "job_inv (run events (submit n))" by (rule job_inv_run)
  with a show "70 \<le> progressPercent (run events (submit n))"
    by (auto simp: job_inv_def)
next
  show "step_status (updateSteps p k m initial_steps ! 1)
      = (if 10 \<le> p then step_completed else pending)"
    using metadata_step [OF initial_steps_pending(1), of p k m] initial_steps_pending(2)
    by simp
next
  show "step_status (updateSteps p k m initial_steps ! 2)
      = (if 70 \<le> p then step_completed else if 15 \<le> p then inProgress else pending)"
    by (simp add: download_step initial_steps_pending)
next
  show "step_status (updateSteps p k m initial_steps ! 3) \<noteq> pending \<longleftrightarrow> 75 \<le> p"
    by (simp add: analysis_step initial_steps_pending)
qed

theorem fetching_progress_range_witness:
  "sync_state (submit 10) = Queued
   \<and> orchestrate Pickup (submit 10) = (submit 10)\<lparr>sync_state := Fetching, progressPercent := 10\<rparr>
   \<and> sync_state (run [Pickup, PageFetched 5] (submit 10)) = Fetching
   \<and> progressPercent (run [Pickup, PageFetched 5] (submit 10)) = 40
   \<and> fetch_progress 5 10 = 40
   \<and> sync_state (run [Pickup, PageFetched 10, NoMorePages] (submit 10)) = Analyzing
   \<and> 70 \<le> progressPercent (run [Pickup, PageFetched 10, NoMorePages] (submit 10))"
proof -
  have a: "sync_state (submit 10) = Queued" by (simp add: submit_def)
  from a fetching_progress_range [where job = "submit 10" and events = "[]" and n = 1
      and processed = 0 and p = 0 and k = 0 and m = 0]
  have b: "orchestrate Pickup (submit 10)
      = (submit 10)\<lparr>sync_state := Fetching, progressPercent := 10\<rparr>"
    by blast
  have c: "sync_state (run [Pickup, PageFetched 5] (submit 10)) = Fetching"
    by (simp add: run_def submit_def)
  have c': "commentsProcessed (run [Pickup, PageFetched 5] (submit 10)) = 5"
    by (simp add: run_def submit_def)
  note t = fetching_progress_range [where job = "submit 10" and events = "[Pickup, PageFetched 5]"
      and n = 10 and processed = 5 and p = 0 and k = 0 and m = 0]
  from t have e: "fetch_progress 5 10 = 40" by simp
  from t c c' e have d: "progressPercent (run [Pickup, PageFetched 5] (submit 10)) = 40"
    by simp
  have f: "sync_state (run [Pickup, PageFetched 10, NoMorePages] (submit 10)) = Analyzing"
    by (simp add: run_def submit_def)
  from f fetching_progress_range [where job = "submit 10"
      and events = "[Pickup, PageFetched 10, NoMorePages]" and n = 10 and processed = 5
      and p = 0 and k = 0 and m = 0]
  have g: "70 \<le> progressPercent (run [Pickup, PageFetched 10, NoMorePages] (submit 10))"
    by simp
  from a b c d e f g show ?thesis by blast
qed


section \<open>Properties of the answer cache and of the suggested questions\<close>

lemma pregenerate_keeps:
  "preGeneratedAnswers answers video k \<noteq> None \<Longrightarrow>
   preGeneratedAnswers (pregenerate ai video answers question) video k \<noteq> None"
  by (simp add: pregenerate_def)

lemma foldl_pregenerate_keeps:
  "preGeneratedAnswers answers video k \<noteq> None \<Longrightarrow>
   preGeneratedAnswers (foldl (pregenerate ai video) answers qs) video k \<noteq> None"
proof (induction qs arbitrary: answers)
  case Nil
  then show ?case by simp
next
  case (Cons x qs)
  from Cons.prems have "preGeneratedAnswers (pregenerate ai video answers x) video k \<noteq> None"
    by (rule pregenerate_keeps)
  then have "preGeneratedAnswers (foldl (pregenerate ai video) (pregenerate ai video answers x) qs)
      video k \<noteq> None"
    by (rule Cons.IH)
  then show ?case by simp
qed

lemma canonical_keys:
  "map canonicalize canonical_questions =
     [''what are people complaining about'', ''what questions are people asking'',
      ''what do people love most'', ''what should i make next'', ''show me toxic comments'']"
  by code_simp

lemma suggested_keys:
  "map canonicalize suggestedQuestions =
     [''what are the main themes in these comments?'',
      ''what questions are viewers asking most?'',
      ''what feedback do viewers have about the video?'',
      ''are there any technical issues mentioned?'',
      ''what do viewers like most about this video?'']"
  by code_simp

lemma suggested_trim: "map trim suggestedQuestions = suggestedQuestions"
  by code_simp


lemma pregenerate_other_key:
  "k \<noteq> canonicalize question \<Longrightarrow>
   preGeneratedAnswers (pregenerate ai video answers question) video k
     = preGeneratedAnswers answers video k"
  by (simp add: pregenerate_def)

lemma pregenerate_key:
  "preGeneratedAnswers (pregenerate ai video answers question) video (canonicalize question)
     = Some (ai video question)"
  by (simp add: pregenerate_def)

lemma foldl_pregenerate_hit:
  "q \<in> set qs \<Longrightarrow>
   preGeneratedAnswers (foldl (pregenerate ai video) answers qs) video (canonicalize q) \<noteq> None"
proof (induction qs arbitrary: answers)
  case Nil
  then show ?case by simp
next
  case (Cons x qs)
  show ?case
  proof (cases "q = x")
    case True
    have "preGeneratedAnswers (pregenerate ai video answers x) video (canonicalize x) \<noteq> None"
      by (simp add: pregenerate_key)
    then have "preGeneratedAnswers (foldl (pregenerate ai video) (pregenerate ai video answers x) qs)
        video (canonicalize x) \<noteq> None"
      by (rule foldl_pregenerate_keeps)
    with True show ?thesis by simp
  next
    case False
    with Cons.prems have "q \<in> set qs" by simp
    then have "preGeneratedAnswers (foldl (pregenerate ai video) (pregenerate ai video answers x) qs)
        video (canonicalize q) \<noteq> None"
      by (rule Cons.IH)
    then show ?thesis by simp
  qed
qed

lemma foldl_pregenerate_miss:
  "k \<notin> set (map canonicalize qs) \<Longrightarrow>
   preGeneratedAnswers (foldl (pregenerate ai video) answers qs) video k
     = preGeneratedAnswers answers video k"
proof (induction qs arbitrary: answers)
  case Nil
  then show ?case by simp
next
  case (Cons x qs)
  from Cons.prems have a: "k \<noteq> canonicalize x" and b: "k \<notin> set (map canonicalize qs)"
    by simp_all
  from b have "preGeneratedAnswers (foldl (pregenerate ai video) (pregenerate ai video answers x) qs)
      video k = preGeneratedAnswers (pregenerate ai video answers x) video k"
    by (rule Cons.IH)
  with a show ?case by (simp add: pregenerate_other_key)
qed

lemma foldl_pregenerate_lazy:
  "lazyAnswers (foldl (pregenerate ai video) answers qs) = lazyAnswers answers"
  by (induction qs arbitrary: answers) (simp_all add: pregenerate_def)

lemma warm_hit:
  assumes "q \<in> set canonical_questions"
  shows "\<exists>a. answerQuestion ai video q (warm ai' video answers)
            = (\<lparr>answer_text = a, cached = True\<rparr>, warm ai' video answers)"
proof -
  from assms have "preGeneratedAnswers (warm ai' video answers) video (canonicalize q) \<noteq> None"
    unfolding warm_def by (rule foldl_pregenerate_hit)
  then obtain a where "preGeneratedAnswers (warm ai' video answers) video (canonicalize q) = Some a"
    by blast
  then have "answerQuestion ai video q (warm ai' video answers)
      = (\<lparr>answer_text = a, cached = True\<rparr>, warm ai' video answers)"
    by (simp add: answerQuestion_def lookup_def)
  then show ?thesis ..
qed

lemma keys_disjoint:
  "set (map canonicalize suggestedQuestions) \<inter> set (map canonicalize canonical_questions) = {}"
  unfolding suggested_keys canonical_keys by simp

lemma suggested_not_canonical:
  assumes "q \<in> set suggestedQuestions"
  shows "canonicalize q \<notin> set (map canonicalize canonical_questions)"
proof -
  from assms have "canonicalize q \<in> set (map canonicalize suggestedQuestions)" by simp
  with keys_disjoint show ?thesis by blast
qed

lemma suggested_nonempty: "[] \<notin> set suggestedQuestions"
  by (simp add: suggestedQuestions_def)

lemma suggested_submitted:
  assumes "q \<in> set suggestedQuestions" "videoId \<noteq> []"
  shows "userQuestion videoId q = Some q"
proof -
  have "map trim suggestedQuestions = map id suggestedQuestions"
    by (simp add: suggested_trim)
  then have "\<forall>x \<in> set suggestedQuestions. trim x = id x"
    by (simp only: map_eq_conv)
  with assms(1) have t: "trim q = q" by simp
  from assms(1) suggested_nonempty have "q \<noteq> []" by blast
  with t assms(2) show ?thesis by (simp add: userQuestion_def)
qed

lemma warm_miss_suggested:
  assumes "q \<in> set suggestedQuestions"
  shows "cached (fst (answerQuestion ai video q (warm ai' video empty_answers))) = False"
proof -
  from assms have k: "canonicalize q \<notin> set (map canonicalize canonical_questions)"
    by (rule suggested_not_canonical)
  have "preGeneratedAnswers (warm ai' video empty_answers) video (canonicalize q)
      = preGeneratedAnswers empty_answers video (canonicalize q)"
    unfolding warm_def using k by (rule foldl_pregenerate_miss)
  moreover have "lazyAnswers (warm ai' video empty_answers) = lazyAnswers empty_answers"
    unfolding warm_def by (rule foldl_pregenerate_lazy)
  ultimately show ?thesis
    by (simp add: answerQuestion_def lookup_def empty_answers_def)
qed

text \<open>
  Claim C3, as the code has it. For every video and every question of the fixed
  canonical list, answering it after \<^verbatim>\<open>warm\<close> has completed returns a response with
  \<^verbatim>\<open>cached = true\<close> and leaves the answer cache, with its count of AI calls, as it was.
  The questions suggested to the user in the Ask AI section are a list of their own:
  each is submitted as it stands, none of them is a question of the canonical list, not
  even after canonicalization, and so after \<^verbatim>\<open>warm\<close> on an empty cache none of them is
  answered from the cache.
\<close>

theorem canonical_questions_cached_after_warm:
  "(q \<in> set canonical_questions \<longrightarrow>
      (\<exists>a. answerQuestion ai video q (warm ai video answers)
             = (\<lparr>answer_text = a, cached = True\<rparr>, warm ai video answers)))
   \<and> (q' \<in> set suggestedQuestions \<longrightarrow>
        canonicalize q' \<notin> set (map canonicalize canonical_questions)
        \<and> (videoId \<noteq> [] \<longrightarrow> userQuestion videoId q' = Some q')
        \<and> cached (fst (answerQuestion ai video q' (warm ai video empty_answers))) = False)"
proof (intro conjI impI)
  assume "q \<in> set canonical_questions"
  then show "\<exists>a. answerQuestion ai video q (warm ai video answers)
      = (\<lparr>answer_text = a, cached = True\<rparr>, warm ai video answers)"
    by (rule warm_hit)
next
  assume "q' \<in> set suggestedQuestions"
  then show "canonicalize q' \<notin> set (map canonicalize canonical_questions)"
    by (rule suggested_not_canonical)
next
  assume "q' \<in> set suggestedQuestions" "videoId \<noteq> []"
  then show "userQuestion videoId q' = Some q'"
    by (rule suggested_submitted)
next
  assume "q' \<in> set suggestedQuestions"
  then show "cached (fst (answerQuestion ai video q' (warm ai video empty_answers))) = False"
    by (rule warm_miss_suggested)
qed

theorem canonical_questions_cached_after_warm_witness:
  "''what do people love most'' \<in> set canonical_questions
   \<and> cached (fst (answerQuestion (\<lambda>v question. ''an answer'') ''v1'' ''what do people love most''
        (warm (\<lambda>v question. ''an answer'') ''v1'' empty_answers)))
   \<and> aiCalls (snd (answerQuestion (\<lambda>v question. ''an answer'') ''v1'' ''what do people love most''
        (warm (\<lambda>v question. ''an answer'') ''v1'' empty_answers)))
       = aiCalls (warm (\<lambda>v question. ''an answer'') ''v1'' empty_answers)
   \<and> ''What questions are viewers asking most?'' \<in> set suggestedQuestions
   \<and> userQuestion ''v1'' ''What questions are viewers asking most?''
       = Some ''What questions are viewers asking most?''
   \<and> \<not> cached (fst (answerQuestion (\<lambda>v question. ''an answer'') ''v1''
        ''What questions are viewers asking most?''
        (warm (\<lambda>v question. ''an answer'') ''v1'' empty_answers)))"
proof -
  let ?ai = "\<lambda>v question. ''an answer''"
  have h1: "''what do people love most'' \<in> set canonical_questions"
    by (simp add: canonical_questions_def)
  have h2: "''What questions are viewers asking most?'' \<in> set suggestedQuestions"
    by (simp add: suggestedQuestions_def)
  have h3: "''v1'' \<noteq> []" by simp
  note t = canonical_questions_cached_after_warm [where q = "''what do people love most''"
      and q' = "''What questions are viewers asking most?''" and ai = ?ai and video = "''v1''"
      and answers = empty_answers and videoId = "''v1''"]
  from t h1 obtain a where a: "answerQuestion ?ai ''v1'' ''what do people love most''
      (warm ?ai ''v1'' empty_answers)
      = (\<lparr>answer_text = a, cached = True\<rparr>, warm ?ai ''v1'' empty_answers)"
    by blast
  from a have c1: "cached (fst (answerQuestion ?ai ''v1'' ''what do people love most''
      (warm ?ai ''v1'' empty_answers)))"
    by simp
  from a have c2: "aiCalls (snd (answerQuestion ?ai ''v1'' ''what do people love most''
      (warm ?ai ''v1'' empty_answers))) = aiCalls (warm ?ai ''v1'' empty_answers)"
    by simp
  from t h2 h3 have c3: "userQuestion ''v1'' ''What questions are viewers asking most?''
      = Some ''What questions are viewers asking most?''"
    by blast
  from t h2 have c4: "\<not> cached (fst (answerQuestion ?ai ''v1''
      ''What questions are viewers asking most?'' (warm ?ai ''v1'' empty_answers)))"
    by blast
  from h1 c1 c2 h2 c3 c4 show ?thesis by blast
qed

text \<open>
  The claim as written has the suggested questions be questions of the canonical list.
  The first suggested question is not in that list, and its canonical form is not the
  canonical form of any question in it.
\<close>

theorem suggested_question_not_canonical:
  "''What are the main themes in these comments?'' \<in> set suggestedQuestions
   \<and> ''What are the main themes in these comments?'' \<notin> set canonical_questions
   \<and> canonicalize ''What are the main themes in these comments?''
       \<notin> set (map canonicalize canonical_questions)"
proof -
  have a: "''What are the main themes in these comments?'' \<in> set suggestedQuestions"
    by (simp add: suggestedQuestions_def)
  have b: "''What are the main themes in these comments?'' \<notin> set canonical_questions"
    by (simp add: canonical_questions_def)
  from a have c: "canonicalize ''What are the main themes in these comments?''
      \<notin> set (map canonicalize canonical_questions)"
    by (rule suggested_not_canonical)
  from a b c show ?thesis by blast
qed

end
